theory Spec2Isabelle
  imports Main "HOL-Library.AList" "HOL-Library.Sublist"
begin

section \<open>The booking handler (src/lambdas/booking/handler.py)\<close>

text \<open>
  The handler is a request processor over three DynamoDB tables (events, tickets,
  bookings), a Redis cache with a lock, and SQS queues. The embedding makes that state a
  record \<open>world\<close> which every operation takes and returns. An operation that can raise
  returns \<open>(Inl exception, world)\<close>: the writes done before the exception stay, as they do
  in the program, which has no transaction.

  Conventions of the embedding.
  \<^item> A dictionary with a fixed set of keys is a record whose fields are options: \<open>None\<close>
    is an absent key, and subscripting it raises \<open>KeyError\<close>. Key attributes of a table
    are the key of the table's association list.
  \<^item> \<open>datetime\<close> values are integers, microseconds since the epoch; an ISO-8601 string
    is represented by the instant it denotes. \<open>datetime.utcnow()\<close> is the parameter
    \<open>now\<close> of an operation (one reading per request), \<open>uuid.uuid4()\<close> is the
    parameter \<open>new_id\<close>, and \<open>int(d.timestamp())\<close> is the parameter \<open>timestamp\<close>: on
    a \<open>datetime\<close> without time zone its value depends on the local time of the host and
    on the rounding of a float.
  \<^item> A call of the store raises nothing but \<open>ClientError\<close>: such a call returns
    \<open>Inl code\<close> for \<open>ClientError\<close> with that error code. The store is available, so that
    \<open>update_item\<close> fails only with \<open>ConditionalCheckFailedException\<close>, and a conditional
    write is atomic, so that concurrent requests are interleavings of the store calls
    modelled here.
  \<^item> A call of the queue service may fail in two ways (\<open>sqs_fault\<close>): the service
    answers with an error, which the client library raises as \<open>ClientError\<close>, or the
    service is not reached, which it raises as a \<open>BotoCoreError\<close> such as
    \<open>EndpointConnectionError\<close>, a class that is not derived from \<open>ClientError\<close>.
  \<^item> A request body is the parsed dictionary and a response body the dictionary before
    \<open>json.dumps(body, default=str)\<close>, which encodes every value of a response. The body of
    a queue message is encoded by \<open>json.dumps(message)\<close>, which raises \<open>TypeError\<close> on a
    \<open>Decimal\<close>: the encoded body is represented by the message, and \<open>json_dumps\<close> says
    whether the encoding succeeds.
\<close>

subsection \<open>Exceptions\<close>

datatype exn =
    ValidationError string
  | BookingError string
  | TicketNotAvailableError string
  | ClientError string
  | KeyError string
  | ParamValidationError string
  | LockError string
  | TypeError string
  | BotoCoreError string

subsection \<open>Numbers\<close>

text \<open>
  A number is an \<open>int\<close> of Python or a \<open>decimal.Decimal\<close>: the client library of the
  store returns every number attribute of an item as a \<open>Decimal\<close>. The sum of an \<open>int\<close>
  and a \<open>Decimal\<close> is a \<open>Decimal\<close>; it is exact here, as it is in Python for a result
  of at most 28 significant digits. Prices are whole numbers.
\<close>

datatype number = Py_int int | Decimal int

definition number_value :: "number \<Rightarrow> int" where
  "number_value n = (case n of Py_int i \<Rightarrow> i | Decimal d \<Rightarrow> d)"

instantiation number :: "{zero, plus}"
begin

definition zero_number :: number where
  "zero_number = Py_int 0"

definition plus_number :: "number \<Rightarrow> number \<Rightarrow> number" where
  "plus_number a b =
     (case a of
        Py_int i \<Rightarrow> (case b of Py_int j \<Rightarrow> Py_int (i + j) | Decimal e \<Rightarrow> Decimal (i + e))
      | Decimal d \<Rightarrow> Decimal (d + number_value b))"

instance ..

end

subsection \<open>Records of the tables\<close>

text \<open>
  An item of the tickets table; its key is \<open>(event_id, ticket_id)\<close>. Its \<open>price\<close> is
  the value of the \<open>Decimal\<close> that a read returns.
\<close>

record ticket =
  tk_tier :: "string option"
  tk_price :: "int option"
  tk_seat_number :: "string option"
  tk_status :: "string option"
  tk_reserved_by :: "string option"
  tk_reserved_until :: "int option"

text \<open>
  An entry of \<open>reserved_tickets\<close> and of a booking's \<open>tickets\<close> list. The field
  \<open>sn_event_id\<close> is the key \<open>'event_id'\<close> that \<open>rollback_reservations\<close> reads; the
  dictionary that \<open>reserve_tickets\<close> appends has the other four keys only. Its \<open>price\<close>
  is the one of the ticket.

  In a booking, \<open>total_amount\<close> is a number: \<open>reserve_tickets\<close> computes it from the
  \<open>int\<close> 0 by adding prices, and the payment message carries it.
\<close>

record snapshot =
  sn_event_id :: "string option"
  sn_ticket_id :: "string option"
  sn_tier :: "string option"
  sn_price :: "int option"
  sn_seat_number :: "string option"

record booking =
  bk_booking_id :: string
  bk_user_id :: "string option"
  bk_event_id :: "string option"
  bk_tickets :: "snapshot list option"
  bk_total_amount :: "number option"
  bk_status :: "string option"
  bk_reserved_until :: "int option"
  bk_created_at :: "int option"
  bk_updated_at :: "int option"
  bk_ttl :: "int option"

record event_item =
  ev_event_id :: string
  ev_status :: "string option"

subsection \<open>Messages of the work queues\<close>

type_synonym payload = "(string \<times> string) list"

datatype queue = BOOKING_QUEUE_URL | PAYMENT_QUEUE_URL | NOTIFICATION_QUEUE_URL

datatype message =
    Process_reservation string string
  | Process_payment string string number payload

datatype fault = Service_fault string | Connection_fault string

subsection \<open>The state\<close>

text \<open>
  The cache is one key space in the program. Its keys are \<open>event:<id>\<close>,
  \<open>booking:<id>\<close> and \<open>user_bookings_count:<id>\<close>, whose prefixes differ in their first
  character or, for a lock key \<open>booking_lock:<id>\<close>, in the eighth, so the key space is the
  disjoint union of the four maps below, each keyed by the identifier. A cache entry
  carries the instant at which it expires.

  \<open>sqs_fault\<close> is the failure of the queue service, if any: \<open>Service_fault code\<close> when
  the service answers with the error \<open>code\<close>, \<open>Connection_fault name\<close> when the client
  library does not reach it and raises the exception \<open>name\<close>. \<open>sqs_sent\<close> lists the
  messages that the service has accepted.
\<close>

record world =
  events_table :: "(string \<times> event_item) list"
  tickets_table :: "((string \<times> string) \<times> ticket) list"
  bookings_table :: "(string \<times> booking) list"
  event_cache :: "string \<Rightarrow> (event_item \<times> int) option"
  booking_cache :: "string \<Rightarrow> (booking \<times> int) option"
  count_cache :: "string \<Rightarrow> (int \<times> int) option"
  locks :: "string list"
  sqs_fault :: "fault option"
  sqs_sent :: "(queue \<times> message) list"

type_synonym 'a io = "world \<Rightarrow> (exn + 'a) \<times> world"

definition RESERVATION_TIMEOUT_MINUTES :: int where
  "RESERVATION_TIMEOUT_MINUTES = 5"

definition MAX_TICKETS_PER_USER :: int where
  "MAX_TICKETS_PER_USER = 6"

definition seconds :: "int \<Rightarrow> int" where
  "seconds n = n * 1000000"

definition minutes :: "int \<Rightarrow> int" where
  "minutes n = seconds (n * 60)"

subsection \<open>The persistent store\<close>

text \<open>
  \<open>update_item\<close> of DynamoDB: the condition is evaluated on the stored item (\<open>None\<close> when
  there is none); when it holds, the update is applied to the stored item, or to an item
  holding only the key when there is none (an upsert).
\<close>

definition update_item ::
  "('k \<times> 'v) list \<Rightarrow> 'k \<Rightarrow> 'v \<Rightarrow> ('v option \<Rightarrow> bool) \<Rightarrow> ('v \<Rightarrow> 'v) \<Rightarrow> string + ('k \<times> 'v) list" where
  "update_item tbl k fresh cond upd =
     (if cond (map_of tbl k)
      then Inr (AList.update k (upd (case map_of tbl k of None \<Rightarrow> fresh | Some v \<Rightarrow> v)) tbl)
      else Inl ''ConditionalCheckFailedException'')"

definition no_condition :: "'v option \<Rightarrow> bool" where
  "no_condition stored = True"

definition put_item :: "('k \<times> 'v) list \<Rightarrow> 'k \<Rightarrow> 'v \<Rightarrow> ('k \<times> 'v) list" where
  "put_item tbl k v = AList.update k v tbl"

definition get_item :: "('k \<times> 'v) list \<Rightarrow> 'k \<Rightarrow> 'v option" where
  "get_item tbl k = map_of tbl k"

definition key_only_ticket :: ticket where
  "key_only_ticket = \<lparr>tk_tier = None, tk_price = None, tk_seat_number = None,
     tk_status = None, tk_reserved_by = None, tk_reserved_until = None\<rparr>"

definition key_only_booking :: "string \<Rightarrow> booking" where
  "key_only_booking booking_id = \<lparr>bk_booking_id = booking_id, bk_user_id = None,
     bk_event_id = None, bk_tickets = None, bk_total_amount = None, bk_status = None,
     bk_reserved_until = None, bk_created_at = None, bk_updated_at = None, bk_ttl = None\<rparr>"

subsection \<open>The cache and the lock\<close>

text \<open>
  \<open>lib/cache_utils\<close> is not among the sources. The spec gives the cache three operations,
  get, set with a time to live, and delete, and a lock for mutual exclusion whose
  acquisition is bounded by a timeout.
\<close>

text \<open>
  Modelled from the spec: \<open>cache_utils.get\<close>, the value stored under the key unless its
  time to live has passed.
\<close>

definition cache_get :: "int \<Rightarrow> (string \<Rightarrow> ('v \<times> int) option) \<Rightarrow> string \<Rightarrow> 'v option" where
  "cache_get now c k =
     (case c k of None \<Rightarrow> None | Some (v, expires) \<Rightarrow> if now < expires then Some v else None)"

text \<open>
  Modelled from the spec: \<open>cache_utils.set\<close>, which stores the value for \<open>ttl\<close> seconds.
\<close>

definition cache_set ::
  "int \<Rightarrow> (string \<Rightarrow> ('v \<times> int) option) \<Rightarrow> string \<Rightarrow> 'v \<Rightarrow> int \<Rightarrow> (string \<Rightarrow> ('v \<times> int) option)" where
  "cache_set now c k v ttl = c(k \<mapsto> (v, now + seconds ttl))"

text \<open>Modelled from the spec: \<open>cache_utils.delete\<close>, which removes the key.\<close>

definition cache_delete :: "(string \<Rightarrow> ('v \<times> int) option) \<Rightarrow> string \<Rightarrow> (string \<Rightarrow> ('v \<times> int) option)" where
  "cache_delete c k = c(k := None)"

text \<open>
  Modelled from the spec: \<open>cache_utils.distributed_lock\<close>. The request fails when the
  lock cannot be obtained, which is the case here when another holder keeps it (\<open>locks\<close>);
  otherwise the block runs and the lock is released on every exit, so that the locks
  held are those held before. The class of the exception is not in the sources:
  \<open>LockError\<close> stands for it, and the handler answers it like any other exception.
\<close>

definition distributed_lock :: "string \<Rightarrow> 'a io \<Rightarrow> 'a io" where
  "distributed_lock lock_key block w =
     (if lock_key \<in> set (locks w)
      then (Inl (LockError lock_key), w)
      else block w)"

subsection \<open>Writes to the tickets table\<close>

definition reserve_ticket_in_db :: "int \<Rightarrow> string \<Rightarrow> string \<Rightarrow> string \<Rightarrow> bool io" where
  "reserve_ticket_in_db now event_id ticket_id user_id w =
     (let reserved_until = now + minutes RESERVATION_TIMEOUT_MINUTES in
      case update_item (tickets_table w) (event_id, ticket_id) key_only_ticket
             (\<lambda>stored. case stored of None \<Rightarrow> False
                        | Some t \<Rightarrow> tk_status t = Some ''available'')
             (\<lambda>t. t\<lparr>tk_status := Some ''reserved'', tk_reserved_by := Some user_id,
                     tk_reserved_until := Some reserved_until\<rparr>) of
        Inr tbl \<Rightarrow> (Inr True, w\<lparr>tickets_table := tbl\<rparr>)
      | Inl code \<Rightarrow>
          if code = ''ConditionalCheckFailedException'' then (Inr False, w)
          else (Inl (ClientError code), w))"

fun rollback_reservations :: "snapshot list \<Rightarrow> string \<Rightarrow> unit io" where
  "rollback_reservations [] user_id w = (Inr (), w)"
| "rollback_reservations (ticket # rest) user_id w =
     (case sn_event_id ticket of
        None \<Rightarrow> (Inl (KeyError ''event_id''), w)
      | Some event_id \<Rightarrow>
          (case sn_ticket_id ticket of
             None \<Rightarrow> (Inl (KeyError ''ticket_id''), w)
           | Some ticket_id \<Rightarrow>
               (case update_item (tickets_table w) (event_id, ticket_id) key_only_ticket
                       (\<lambda>stored. case stored of None \<Rightarrow> False
                                  | Some t \<Rightarrow> tk_reserved_by t = Some user_id)
                       (\<lambda>t. t\<lparr>tk_status := Some ''available'', tk_reserved_by := None,
                               tk_reserved_until := None\<rparr>) of
                  Inr tbl \<Rightarrow> rollback_reservations rest user_id (w\<lparr>tickets_table := tbl\<rparr>)
                | Inl code \<Rightarrow> rollback_reservations rest user_id w)))"

definition release_ticket :: "string \<Rightarrow> string \<Rightarrow> world \<Rightarrow> world" where
  "release_ticket event_id ticket_id w =
     (case update_item (tickets_table w) (event_id, ticket_id) key_only_ticket no_condition
             (\<lambda>t. t\<lparr>tk_status := Some ''available'', tk_reserved_by := None,
                     tk_reserved_until := None\<rparr>) of
        Inr tbl \<Rightarrow> w\<lparr>tickets_table := tbl\<rparr>
      | Inl code \<Rightarrow> w)"

subsection \<open>Sequencing\<close>

definition return :: "'a \<Rightarrow> 'a io" where
  "return x w = (Inr x, w)"

definition raise :: "exn \<Rightarrow> 'a io" where
  "raise e w = (Inl e, w)"

definition io_bind :: "'a io \<Rightarrow> ('a \<Rightarrow> 'b io) \<Rightarrow> 'b io" where
  "io_bind m f w = (case m w of (Inl e, w1) \<Rightarrow> (Inl e, w1) | (Inr x, w1) \<Rightarrow> f x w1)"

text \<open>\<open>d[key]\<close> on a dictionary whose key may be absent.\<close>

definition getitem :: "'a option \<Rightarrow> string \<Rightarrow> 'a io" where
  "getitem field key w = (case field of None \<Rightarrow> (Inl (KeyError key), w) | Some v \<Rightarrow> (Inr v, w))"

subsection \<open>Responses\<close>

datatype response_body =
    Error_body string
  | Message_body string
  | Reserved_body string string int "snapshot list" number int
  | Processing_body string string string
  | Booking_body booking
  | Bookings_body "booking list" nat "string option"

record response =
  rs_statusCode :: int
  rs_headers :: "(string \<times> string) list"
  rs_body :: response_body

definition create_response :: "int \<Rightarrow> response_body \<Rightarrow> response" where
  "create_response status_code b =
     \<lparr>rs_statusCode = status_code,
      rs_headers = [(''Content-Type'', ''application/json''),
                 (''Access-Control-Allow-Origin'', ''*''),
                 (''Access-Control-Allow-Headers'',
                  ''Content-Type,X-Amz-Date,Authorization,X-Api-Key''),
                 (''Access-Control-Allow-Methods'', ''GET,POST,PUT,DELETE,OPTIONS'')],
      rs_body = b\<rparr>"

subsection \<open>Decimal rendering of \<open>len(...)\<close> in a message\<close>

definition digit :: "nat \<Rightarrow> char" where
  "digit d = ''0123456789'' ! d"

function str_nat :: "nat \<Rightarrow> string" where
  "str_nat n = (if n < 10 then [digit n] else str_nat (n div 10) @ [digit (n mod 10)])"
  by pat_completeness auto
termination
  by (relation "measure id") auto

declare str_nat.simps [simp del]

subsection \<open>Reads\<close>

text \<open>A cached event holds its \<open>event_id\<close>, so the test \<open>if cached_event\<close> succeeds.\<close>

definition get_event :: "int \<Rightarrow> string \<Rightarrow> world \<Rightarrow> event_item option \<times> world" where
  "get_event now event_id w =
     (case cache_get now (event_cache w) event_id of
        Some cached_event \<Rightarrow> (Some cached_event, w)
      | None \<Rightarrow>
          (case get_item (events_table w) event_id of
             None \<Rightarrow> (None, w)
           | Some event \<Rightarrow>
               (Some event,
                w\<lparr>event_cache := cache_set now (event_cache w) event_id event 300\<rparr>)))"

text \<open>
  The query reads the index in the order of the table's list. \<open>Limit\<close> bounds the items
  read under the key condition, before the filter on the tier; a limit below one is
  refused by the client library.
\<close>

definition get_available_tickets ::
  "string \<Rightarrow> string \<Rightarrow> int \<Rightarrow> world \<Rightarrow> exn + ((string \<times> string) \<times> ticket) list" where
  "get_available_tickets event_id tier quantity w =
     (if quantity * 2 < 1 then Inl (ParamValidationError ''Limit'')
      else Inr (filter (\<lambda>item. tk_tier (snd item) = Some tier)
                 (take (nat (quantity * 2))
                    (filter (\<lambda>item. fst (fst item) = event_id
                                     \<and> tk_status (snd item) = Some ''available'')
                       (tickets_table w)))))"

definition get_user_active_bookings_count :: "int \<Rightarrow> string \<Rightarrow> world \<Rightarrow> int \<times> world" where
  "get_user_active_bookings_count now user_id w =
     (case cache_get now (count_cache w) user_id of
        Some cached_count \<Rightarrow> (cached_count, w)
      | None \<Rightarrow>
          (let count = int (length (filter
                 (\<lambda>item. bk_user_id (snd item) = Some user_id
                          \<and> (case bk_status (snd item) of None \<Rightarrow> False
                              | Some st \<Rightarrow> st \<in> set [''reserved'', ''processing'', ''confirmed'']))
                 (bookings_table w)))
           in (count, w\<lparr>count_cache := cache_set now (count_cache w) user_id count 60\<rparr>)))"

text \<open>
  A cached booking holds its \<open>booking_id\<close>, so it is a non-empty dictionary and the test
  \<open>if cached_booking\<close> succeeds. An item without the attribute \<open>status\<close> raises
  \<open>KeyError\<close> in the test on \<open>booking['status']\<close>.
\<close>

definition get_booking_by_id :: "int \<Rightarrow> string \<Rightarrow> booking option io" where
  "get_booking_by_id now booking_id w =
     (case cache_get now (booking_cache w) booking_id of
        Some cached_booking \<Rightarrow> (Inr (Some cached_booking), w)
      | None \<Rightarrow>
          (case get_item (bookings_table w) booking_id of
             None \<Rightarrow> (Inr None, w)
           | Some booking \<Rightarrow>
               (case bk_status booking of
                  None \<Rightarrow> (Inl (KeyError ''status''), w)
                | Some st \<Rightarrow>
                    (Inr (Some booking),
                     if st \<in> set [''reserved'', ''processing'']
                     then w\<lparr>booking_cache :=
                              cache_set now (booking_cache w) booking_id booking 300\<rparr>
                     else w))))"

subsection \<open>Booking status, cancellation, queue\<close>

definition update_booking_status :: "int \<Rightarrow> string \<Rightarrow> string \<Rightarrow> unit io" where
  "update_booking_status now booking_id status w =
     (case update_item (bookings_table w) booking_id (key_only_booking booking_id) no_condition
             (\<lambda>b. b\<lparr>bk_status := Some status, bk_updated_at := Some now\<rparr>) of
        Inl code \<Rightarrow> (Inl (ClientError code), w)
      | Inr tbl \<Rightarrow>
          io_bind (get_booking_by_id now booking_id)
            (\<lambda>booking w2.
               case booking of
                 None \<Rightarrow> (Inr (), w2)
               | Some b \<Rightarrow>
                   (Inr (),
                    w2\<lparr>booking_cache := cache_set now (booking_cache w2) booking_id
                          (b\<lparr>bk_status := Some status, bk_updated_at := Some now\<rparr>) 300\<rparr>))
            (w\<lparr>bookings_table := tbl\<rparr>))"

text \<open>The loop of \<open>cancel_booking_internal\<close> over \<open>booking['tickets']\<close>.\<close>

fun release_tickets :: "string option \<Rightarrow> snapshot list \<Rightarrow> unit io" where
  "release_tickets event_id [] w = (Inr (), w)"
| "release_tickets event_id (ticket # rest) w =
     (case event_id of
        None \<Rightarrow> (Inl (KeyError ''event_id''), w)
      | Some e \<Rightarrow>
          (case sn_ticket_id ticket of
             None \<Rightarrow> (Inl (KeyError ''ticket_id''), w)
           | Some t \<Rightarrow> release_tickets event_id rest (release_ticket e t w)))"

definition cancel_booking_internal :: "int \<Rightarrow> string \<Rightarrow> unit io" where
  "cancel_booking_internal now booking_id =
     io_bind (get_booking_by_id now booking_id)
       (\<lambda>booking.
          case booking of
            None \<Rightarrow> return ()
          | Some b \<Rightarrow>
              io_bind (getitem (bk_tickets b) ''tickets'')
                (\<lambda>tickets.
                   io_bind (release_tickets (bk_event_id b) tickets)
                     (\<lambda>_.
                        io_bind (update_booking_status now booking_id ''cancelled'')
                          (\<lambda>_ w.
                             io_bind (getitem (bk_user_id b) ''user_id'')
                               (\<lambda>owner w2.
                                  (Inr (), w2\<lparr>count_cache := cache_delete (count_cache w2) owner\<rparr>))
                               (w\<lparr>booking_cache := cache_delete (booking_cache w) booking_id\<rparr>)))))"

text \<open>
  \<open>json.dumps(message)\<close> has no \<open>default\<close>: it encodes strings, an \<open>int\<close> and the parsed
  \<open>payment_method\<close>, and raises \<open>TypeError\<close> on a \<open>Decimal\<close>.
\<close>

definition json_dumps :: "message \<Rightarrow> exn + message" where
  "json_dumps msg =
     (case msg of
        Process_reservation booking_id user_id \<Rightarrow> Inr msg
      | Process_payment booking_id user_id amount payment_method \<Rightarrow>
          (case amount of
             Py_int i \<Rightarrow> Inr msg
           | Decimal d \<Rightarrow>
               Inl (TypeError ''Object of type Decimal is not JSON serializable'')))"

definition sqs_send_message :: "queue \<Rightarrow> message \<Rightarrow> unit io" where
  "sqs_send_message queue_url message_body w =
     (case sqs_fault w of
        None \<Rightarrow> (Inr (), w\<lparr>sqs_sent := sqs_sent w @ [(queue_url, message_body)]\<rparr>)
      | Some (Service_fault code) \<Rightarrow> (Inl (ClientError code), w)
      | Some (Connection_fault name) \<Rightarrow> (Inl (BotoCoreError name), w))"

text \<open>
  The argument \<open>json.dumps(message)\<close> is evaluated inside the \<open>try\<close>, before the call
  of the service. The \<open>except\<close> clause catches \<open>ClientError\<close> and prints it; every other
  exception leaves \<open>send_to_queue\<close>.
\<close>

definition send_to_queue :: "queue \<Rightarrow> message \<Rightarrow> unit io" where
  "send_to_queue queue_url message w =
     (case json_dumps message of
        Inl e \<Rightarrow> (Inl e, w)
      | Inr message_body \<Rightarrow>
          (case sqs_send_message queue_url message_body w of
             (Inr u, w1) \<Rightarrow> (Inr (), w1)
           | (Inl (ClientError code), w1) \<Rightarrow> (Inr (), w1)
           | (Inl e, w1) \<Rightarrow> (Inl e, w1)))"

subsection \<open>Requests\<close>

record ticket_request =
  rq_tier :: string
  rq_quantity :: int

text \<open>
  The parsed body of a request, with the keys that the handler reads:
  \<open>event_id\<close> and \<open>tickets\<close> for a reservation, \<open>booking_id\<close> and \<open>payment_method\<close> for a
  confirmation. \<open>validate_booking_request\<close> (\<open>lib/validation\<close>, not among the sources) is
  a parameter of the operations: it returns the message of the \<open>ValidationError\<close> it
  raises, or \<open>None\<close> when it accepts the body. In an event of the API, the path parameter
  \<open>booking_id\<close> and the user identifier set by the authorizer are present.
\<close>

record request_body =
  rb_event_id :: string
  rb_tickets :: "ticket_request list"
  rb_booking_id :: "string option"
  rb_payment_method :: payload

record query_params =
  qp_limit :: "int option"
  qp_last_key :: "string option"
  qp_status :: "string option"

record api_event =
  ae_httpMethod :: string
  ae_path :: string
  ae_body :: request_body
  ae_queryStringParameters :: query_params
  ae_booking_id :: string
  ae_user_id :: string

subsection \<open>reserve_tickets\<close>

text \<open>
  The loops of \<open>reserve_tickets\<close> carry \<open>reserved_tickets\<close> and \<open>total_amount\<close>, which the
  \<open>except\<close> clause reads after an exception: a loop returns the exception, if any, with
  the two variables and the state. \<open>ticket['price']\<close> was read from the store: it is a
  \<open>Decimal\<close>, and so is \<open>total_amount\<close> once a price was added to it.
\<close>

type_synonym reserved = "snapshot list \<times> number"

fun reserve_tier ::
  "int \<Rightarrow> string \<Rightarrow> string \<Rightarrow> string \<Rightarrow> ((string \<times> string) \<times> ticket) list \<Rightarrow> reserved \<Rightarrow> world
     \<Rightarrow> exn option \<times> reserved \<times> world" where
  "reserve_tier now event_id tier user_id [] acc w = (None, acc, w)"
| "reserve_tier now event_id tier user_id (item # rest) (reserved_tickets, total_amount) w =
     (let ticket_id = snd (fst item); ticket = snd item in
      case reserve_ticket_in_db now event_id ticket_id user_id w of
        (Inl e, w1) \<Rightarrow> (Some e, (reserved_tickets, total_amount), w1)
      | (Inr reservation_result, w1) \<Rightarrow>
          if reservation_result
          then (case tk_price ticket of
                  None \<Rightarrow> (Some (KeyError ''price''), (reserved_tickets, total_amount), w1)
                | Some price \<Rightarrow>
                    reserve_tier now event_id tier user_id rest
                      (reserved_tickets @
                         [\<lparr>sn_event_id = None, sn_ticket_id = Some ticket_id,
                           sn_tier = Some tier, sn_price = Some price,
                           sn_seat_number = Some (case tk_seat_number ticket of
                                                    None \<Rightarrow> [] | Some seat \<Rightarrow> seat)\<rparr>],
                       total_amount + Decimal price) w1)
          else (case rollback_reservations reserved_tickets user_id w1 of
                  (Inl e, w2) \<Rightarrow> (Some e, (reserved_tickets, total_amount), w2)
                | (Inr u, w2) \<Rightarrow>
                    (Some (TicketNotAvailableError
                             (''Ticket '' @ ticket_id @ '' no longer available'')),
                     (reserved_tickets, total_amount), w2)))"

fun reserve_requests ::
  "int \<Rightarrow> string \<Rightarrow> string \<Rightarrow> ticket_request list \<Rightarrow> reserved \<Rightarrow> world
     \<Rightarrow> exn option \<times> reserved \<times> world" where
  "reserve_requests now event_id user_id [] acc w = (None, acc, w)"
| "reserve_requests now event_id user_id (ticket_request # rest) acc w =
     (let tier = rq_tier ticket_request; quantity = rq_quantity ticket_request in
      case get_available_tickets event_id tier quantity w of
        Inl e \<Rightarrow> (Some e, acc, w)
      | Inr available_tickets \<Rightarrow>
          if int (length available_tickets) < quantity
          then (Some (TicketNotAvailableError
                        (''Only '' @ str_nat (length available_tickets) @ '' '' @ tier
                           @ '' tickets available'')), acc, w)
          else (case reserve_tier now event_id tier user_id
                       (take (nat quantity) available_tickets) acc w of
                  (Some e, acc1, w1) \<Rightarrow> (Some e, acc1, w1)
                | (None, acc1, w1) \<Rightarrow> reserve_requests now event_id user_id rest acc1 w1))"

text \<open>
  The table of bookings holds an item as a read returns it: \<open>total_amount\<close>, written as
  an \<open>int\<close> or as a \<open>Decimal\<close>, is stored as a number and read as a \<open>Decimal\<close>.
\<close>

definition as_item :: "booking \<Rightarrow> booking" where
  "as_item booking =
     booking\<lparr>bk_total_amount :=
       map_option (\<lambda>n. Decimal (number_value n)) (bk_total_amount booking)\<rparr>"

text \<open>
  The end of the \<open>try\<close> block of \<open>reserve_tickets\<close>: the booking record is written,
  cached and announced on the queue. \<open>timestamp reserved_until\<close> is
  \<open>int(reserved_until.timestamp())\<close>.
\<close>

definition create_booking ::
  "(int \<Rightarrow> int) \<Rightarrow> string \<Rightarrow> int \<Rightarrow> string \<Rightarrow> string \<Rightarrow> snapshot list \<Rightarrow> number
     \<Rightarrow> response io" where
  "create_booking timestamp new_id now event_id user_id reserved_tickets total_amount w =
     (let booking_id = new_id;
          reserved_until = now + minutes RESERVATION_TIMEOUT_MINUTES;
          booking =
            \<lparr>bk_booking_id = booking_id,
             bk_user_id = Some user_id,
             bk_event_id = Some event_id,
             bk_tickets = Some reserved_tickets,
             bk_total_amount = Some total_amount,
             bk_status = Some ''reserved'',
             bk_reserved_until = Some reserved_until,
             bk_created_at = Some now,
             bk_updated_at = Some now,
             bk_ttl = Some (timestamp reserved_until + 3600)\<rparr>;
          w1 = w\<lparr>bookings_table := put_item (bookings_table w) booking_id (as_item booking)\<rparr>;
          w2 = w1\<lparr>booking_cache :=
                    cache_set now (booking_cache w1) booking_id booking
                      (RESERVATION_TIMEOUT_MINUTES * 60)\<rparr>
      in io_bind (send_to_queue BOOKING_QUEUE_URL (Process_reservation booking_id user_id))
           (\<lambda>u. return (create_response 201
                         (Reserved_body booking_id ''reserved'' reserved_until
                            reserved_tickets total_amount RESERVATION_TIMEOUT_MINUTES)))
           w2)"

text \<open>
  The body of the \<open>with\<close> statement: the \<open>try\<close> block, and the \<open>except\<close> clause that
  calls \<open>rollback_reservations\<close> again and raises the exception once more, whether the
  exception comes from the loops or from the end of the block.
\<close>

definition reserve_under_lock ::
  "(int \<Rightarrow> int) \<Rightarrow> string \<Rightarrow> int \<Rightarrow> string \<Rightarrow> string \<Rightarrow> ticket_request list \<Rightarrow> response io" where
  "reserve_under_lock timestamp new_id now event_id user_id ticket_requests w =
     (case reserve_requests now event_id user_id ticket_requests ([], 0) w of
        (Some e, (reserved_tickets, total_amount), w1) \<Rightarrow>
          io_bind (rollback_reservations reserved_tickets user_id) (\<lambda>u. raise e) w1
      | (None, (reserved_tickets, total_amount), w1) \<Rightarrow>
          (case create_booking timestamp new_id now event_id user_id reserved_tickets
                  total_amount w1 of
             (Inr resp, w2) \<Rightarrow> (Inr resp, w2)
           | (Inl e, w2) \<Rightarrow>
               io_bind (rollback_reservations reserved_tickets user_id) (\<lambda>u. raise e) w2))"

definition reserve_tickets ::
  "(request_body \<Rightarrow> string option) \<Rightarrow> (int \<Rightarrow> int) \<Rightarrow> string \<Rightarrow> int \<Rightarrow> request_body \<Rightarrow> string
     \<Rightarrow> response io" where
  "reserve_tickets validate_booking_request timestamp new_id now body user_id w =
     (case validate_booking_request body of
        Some msg \<Rightarrow> (Inl (ValidationError msg), w)
      | None \<Rightarrow>
          (let event_id = rb_event_id body;
               ticket_requests = rb_tickets body;
               (active_bookings, w1) = get_user_active_bookings_count now user_id w;
               total_requested = sum_list (map rq_quantity ticket_requests)
           in if active_bookings + total_requested > MAX_TICKETS_PER_USER
              then (Inl (BookingError ''Maximum 6 tickets per user''), w1)
              else
                (let (event, w2) = get_event now event_id w1 in
                 case event of
                   None \<Rightarrow> (Inl (BookingError ''Event not available for booking''), w2)
                 | Some ev \<Rightarrow>
                     io_bind (getitem (ev_status ev) ''status'')
                       (\<lambda>status.
                          if status \<noteq> ''active''
                          then raise (BookingError ''Event not available for booking'')
                          else
                            distributed_lock (''booking_lock:'' @ event_id)
                              (reserve_under_lock timestamp new_id now event_id user_id
                                 ticket_requests))
                       w2)))"

subsection \<open>confirm_booking, get_booking, cancel_booking\<close>

definition confirm_booking :: "int \<Rightarrow> request_body \<Rightarrow> string \<Rightarrow> response io" where
  "confirm_booking now body user_id =
     (let payment_method = rb_payment_method body in
      case rb_booking_id body of
        None \<Rightarrow> raise (ValidationError ''booking_id is required'')
      | Some booking_id \<Rightarrow>
          if booking_id = [] then raise (ValidationError ''booking_id is required'')
          else
            io_bind (get_booking_by_id now booking_id)
              (\<lambda>found.
                 case found of
                   None \<Rightarrow> raise (BookingError ''Booking not found'')
                 | Some booking \<Rightarrow>
                     io_bind (getitem (bk_user_id booking) ''user_id'')
                       (\<lambda>owner.
                          if owner \<noteq> user_id
                          then raise (BookingError ''Unauthorized access to booking'')
                          else
                            io_bind (getitem (bk_status booking) ''status'')
                              (\<lambda>status.
                                 if status \<noteq> ''reserved''
                                 then raise (BookingError
                                        (''Cannot confirm booking with status: '' @ status))
                                 else
                                   io_bind (getitem (bk_reserved_until booking)
                                              ''reserved_until'')
                                     (\<lambda>reserved_until.
                                        if now > reserved_until
                                        then io_bind (cancel_booking_internal now booking_id)
                                               (\<lambda>u. raise (BookingError
                                                             ''Reservation has expired''))
                                        else
                                          io_bind (update_booking_status now booking_id
                                                     ''processing'')
                                            (\<lambda>u. io_bind
                                                    (getitem (bk_total_amount booking)
                                                       ''total_amount'')
                                                    (\<lambda>amount.
                                                       io_bind
                                                         (send_to_queue PAYMENT_QUEUE_URL
                                                            (Process_payment booking_id user_id
                                                               amount payment_method))
                                                         (\<lambda>u. return
                                                            (create_response 200
                                                               (Processing_body booking_id
                                                                  ''processing''
                                                                  ''Payment processing initiated''))))))))))"

definition get_booking :: "int \<Rightarrow> string \<Rightarrow> string \<Rightarrow> response io" where
  "get_booking now booking_id user_id =
     io_bind (get_booking_by_id now booking_id)
       (\<lambda>found.
          case found of
            None \<Rightarrow> return (create_response 404 (Error_body ''Booking not found''))
          | Some booking \<Rightarrow>
              io_bind (getitem (bk_user_id booking) ''user_id'')
                (\<lambda>owner.
                   if owner \<noteq> user_id
                   then return (create_response 403 (Error_body ''Unauthorized access''))
                   else return (create_response 200 (Booking_body booking))))"

definition cancel_booking :: "int \<Rightarrow> string \<Rightarrow> string \<Rightarrow> response io" where
  "cancel_booking now booking_id user_id =
     io_bind (get_booking_by_id now booking_id)
       (\<lambda>found.
          case found of
            None \<Rightarrow> return (create_response 404 (Error_body ''Booking not found''))
          | Some booking \<Rightarrow>
              io_bind (getitem (bk_user_id booking) ''user_id'')
                (\<lambda>owner.
                   if owner \<noteq> user_id
                   then return (create_response 403 (Error_body ''Unauthorized access''))
                   else
                     io_bind (getitem (bk_status booking) ''status'')
                       (\<lambda>status.
                          if status \<in> set [''cancelled'', ''expired'']
                          then return (create_response 409
                                         (Error_body ''Booking already cancelled''))
                          else if status = ''confirmed''
                          then return (create_response 409
                                         (Error_body ''Cannot cancel confirmed booking''))
                          else
                            io_bind (cancel_booking_internal now booking_id)
                              (\<lambda>u. return (create_response 200
                                              (Message_body
                                                 ''Booking cancelled successfully''))))))"

subsection \<open>get_user_bookings and lambda_handler\<close>

text \<open>
  The index is read most recent first, which is the reverse of the table's list here.
  \<open>last_key\<close> is represented by the identifier of the booking after which the page
  resumes, and \<open>limit\<close> by the integer that \<open>int(...)\<close> parses.
\<close>

definition get_user_bookings :: "string \<Rightarrow> query_params \<Rightarrow> world \<Rightarrow> exn + response" where
  "get_user_bookings user_id query_params w =
     (let limit = (case qp_limit query_params of None \<Rightarrow> 20 | Some l \<Rightarrow> l);
          last_key = qp_last_key query_params;
          status_filter = qp_status query_params
      in if limit < 1 then Inl (ParamValidationError ''Limit'')
         else
           (let matching = rev (map snd (filter (\<lambda>item. bk_user_id (snd item) = Some user_id)
                                           (bookings_table w)));
                start = (case last_key of
                           None \<Rightarrow> matching
                         | Some k \<Rightarrow>
                             if k = [] then matching
                             else drop 1 (dropWhile (\<lambda>b. bk_booking_id b \<noteq> k) matching));
                evaluated = take (nat limit) start;
                items = (case status_filter of
                           None \<Rightarrow> evaluated
                         | Some st \<Rightarrow>
                             if st = [] then evaluated
                             else filter (\<lambda>b. bk_status b = Some st) evaluated);
                last_evaluated = (if nat limit \<le> length start
                                  then Some (bk_booking_id (last evaluated)) else None)
            in Inr (create_response 200 (Bookings_body items (length items) last_evaluated))))"

definition lambda_handler ::
  "(request_body \<Rightarrow> string option) \<Rightarrow> (int \<Rightarrow> int) \<Rightarrow> string \<Rightarrow> int \<Rightarrow> api_event \<Rightarrow> world
     \<Rightarrow> response \<times> world" where
  "lambda_handler validate_booking_request timestamp new_id now event w =
     (let http_method = ae_httpMethod event;
          path = ae_path event;
          body = ae_body event;
          query_params = ae_queryStringParameters event;
          user_id = ae_user_id event;
          (result, w1) =
            (if http_method = ''POST'' \<and> path = ''/booking/reserve''
             then reserve_tickets validate_booking_request timestamp new_id now body user_id w
             else if http_method = ''POST'' \<and> path = ''/booking/confirm''
             then confirm_booking now body user_id w
             else if http_method = ''GET'' \<and> prefix ''/booking/'' path
             then get_booking now (ae_booking_id event) user_id w
             else if http_method = ''DELETE'' \<and> prefix ''/booking/'' path
             then cancel_booking now (ae_booking_id event) user_id w
             else if http_method = ''GET'' \<and> path = ''/user/bookings''
             then (get_user_bookings user_id query_params w, w)
             else (Inr (create_response 404 (Error_body ''Endpoint not found'')), w))
      in (case result of
            Inr resp \<Rightarrow> resp
          | Inl (ValidationError msg) \<Rightarrow> create_response 400 (Error_body msg)
          | Inl (BookingError msg) \<Rightarrow> create_response 409 (Error_body msg)
          | Inl (TicketNotAvailableError msg) \<Rightarrow> create_response 409 (Error_body msg)
          | Inl e \<Rightarrow> create_response 500 (Error_body ''Internal server error''),
          w1))"

section \<open>Observations used in the statements\<close>

definition ticket_of :: "world \<Rightarrow> string \<times> string \<Rightarrow> ticket option" where
  "ticket_of w k = map_of (tickets_table w) k"

definition booking_of :: "world \<Rightarrow> string \<Rightarrow> booking option" where
  "booking_of w booking_id = map_of (bookings_table w) booking_id"

definition is_reserved :: "ticket option \<Rightarrow> bool" where
  "is_reserved stored =
     (case stored of None \<Rightarrow> False | Some t \<Rightarrow> tk_status t = Some ''reserved'')"

definition is_available :: "ticket option \<Rightarrow> bool" where
  "is_available stored =
     (case stored of
        None \<Rightarrow> False
      | Some t \<Rightarrow> tk_status t = Some ''available'' \<and> tk_reserved_by t = None
                  \<and> tk_reserved_until t = None)"

text \<open>The record that the conditional write of \<open>reserve_ticket_in_db\<close> leaves.\<close>

definition reserved_for :: "int \<Rightarrow> string \<Rightarrow> ticket \<Rightarrow> ticket" where
  "reserved_for now user_id t =
     t\<lparr>tk_status := Some ''reserved'', tk_reserved_by := Some user_id,
       tk_reserved_until := Some (now + 300000000)\<rparr>"

definition held_by :: "int \<Rightarrow> string \<Rightarrow> ticket \<Rightarrow> bool" where
  "held_by now user_id t =
     (tk_status t = Some ''reserved'' \<and> tk_reserved_by t = Some user_id
      \<and> tk_reserved_until t = Some (now + 300000000))"

text \<open>
  \<open>only_reserves new w w'\<close>: every ticket that is reserved in \<open>w'\<close> has the record it had in
  \<open>w\<close>, or a record that satisfies \<open>new\<close>.
\<close>

definition only_reserves :: "(ticket \<Rightarrow> bool) \<Rightarrow> world \<Rightarrow> world \<Rightarrow> bool" where
  "only_reserves new w w' =
     (\<forall>k. is_reserved (ticket_of w' k) \<longrightarrow>
          ticket_of w' k = ticket_of w k \<or> (\<exists>t. ticket_of w' k = Some t \<and> new t))"

definition never :: "ticket \<Rightarrow> bool" where
  "never t = False"

text \<open>
  \<open>reserves_available now u w w'\<close>: every ticket has in \<open>w'\<close> the record it has in \<open>w\<close>,
  or is available in \<open>w\<close> and has in \<open>w'\<close> the record that the conditional write of
  \<open>reserve_ticket_in_db\<close> for \<open>u\<close> at \<open>now\<close> leaves. \<open>reserved_from_available now u w w'\<close>
  says so of every ticket that is reserved in \<open>w'\<close>.
\<close>

definition reserves_available :: "int \<Rightarrow> string \<Rightarrow> world \<Rightarrow> world \<Rightarrow> bool" where
  "reserves_available now u w w' =
     (\<forall>k. ticket_of w' k = ticket_of w k
          \<or> (\<exists>t. ticket_of w k = Some t \<and> tk_status t = Some ''available''
                 \<and> ticket_of w' k = Some (reserved_for now u t)))"

definition reserved_from_available :: "int \<Rightarrow> string \<Rightarrow> world \<Rightarrow> world \<Rightarrow> bool" where
  "reserved_from_available now u w w' =
     (\<forall>k. is_reserved (ticket_of w' k) \<longrightarrow>
          ticket_of w' k = ticket_of w k
          \<or> (\<exists>t. ticket_of w k = Some t \<and> tk_status t = Some ''available''
                 \<and> ticket_of w' k = Some (reserved_for now u t)))"

text \<open>One iteration of \<open>rollback_reservations\<close> whose keys are present.\<close>

definition rollback_write :: "string \<Rightarrow> string \<Rightarrow> string \<Rightarrow> world \<Rightarrow> world" where
  "rollback_write e t u w =
     (case ticket_of w (e, t) of
        None \<Rightarrow> w
      | Some tk \<Rightarrow>
          if tk_reserved_by tk = Some u
          then w\<lparr>tickets_table := AList.update (e, t)
                  (tk\<lparr>tk_status := Some ''available'', tk_reserved_by := None,
                      tk_reserved_until := None\<rparr>) (tickets_table w)\<rparr>
          else w)"

text \<open>
  \<open>same_booking c s\<close>: the copy \<open>c\<close> of a booking has the owner, the status, the event
  and the tickets of \<open>s\<close>.
\<close>

definition same_booking :: "booking \<Rightarrow> booking \<Rightarrow> bool" where
  "same_booking c s =
     (bk_user_id c = bk_user_id s \<and> bk_status c = bk_status s
      \<and> bk_event_id c = bk_event_id s \<and> bk_tickets c = bk_tickets s)"

text \<open>
  \<open>cache_agrees now w b s\<close>: at \<open>now\<close> the cache of \<open>w\<close> holds no copy of the booking
  \<open>b\<close>, or a copy with the owner, status, event and tickets of \<open>s\<close>.
\<close>

definition cache_agrees :: "int \<Rightarrow> world \<Rightarrow> string \<Rightarrow> booking \<Rightarrow> bool" where
  "cache_agrees now w b s =
     (case cache_get now (booking_cache w) b of None \<Rightarrow> True | Some c \<Rightarrow> same_booking c s)"

text \<open>
  \<open>queue_rel code sent wa wb\<close>: the states \<open>wa\<close> and \<open>wb\<close> hold the same tables, caches
  and locks; in \<open>wa\<close> the queue service answers with the error \<open>code\<close> and the messages
  sent are \<open>sent\<close>; in \<open>wb\<close> the queue service accepts a message.
\<close>

definition queue_rel :: "string \<Rightarrow> (queue \<times> message) list \<Rightarrow> world \<Rightarrow> world \<Rightarrow> bool" where
  "queue_rel code sent wa wb =
     (events_table wa = events_table wb \<and> tickets_table wa = tickets_table wb
      \<and> bookings_table wa = bookings_table wb \<and> event_cache wa = event_cache wb
      \<and> booking_cache wa = booking_cache wb \<and> count_cache wa = count_cache wb
      \<and> locks wa = locks wb \<and> sqs_fault wa = Some (Service_fault code)
      \<and> sqs_fault wb = None \<and> sqs_sent wa = sent)"

text \<open>
  \<open>queue_blind f\<close>: from two such states \<open>f\<close> returns the same result and leaves two such
  states.
\<close>

definition queue_blind :: "(world \<Rightarrow> 'r \<times> world) \<Rightarrow> bool" where
  "queue_blind f =
     (\<forall>code sent wa wb. queue_rel code sent wa wb \<longrightarrow>
        fst (f wa) = fst (f wb) \<and> queue_rel code sent (snd (f wa)) (snd (f wb)))"

text \<open>
  \<open>client_error_swallowed code f w\<close> compares the run of \<open>f\<close> from \<open>w\<close> in which the queue
  service answers with the error \<open>code\<close> to its run in which the service accepts a
  message: the same result, the same tables and caches, and in the first run no message
  sent.
\<close>

definition client_error_swallowed :: "string \<Rightarrow> (world \<Rightarrow> 'r \<times> world) \<Rightarrow> world \<Rightarrow> bool" where
  "client_error_swallowed code f w =
     (let down = f (w\<lparr>sqs_fault := Some (Service_fault code)\<rparr>);
          up = f (w\<lparr>sqs_fault := None\<rparr>)
      in fst down = fst up
         \<and> events_table (snd down) = events_table (snd up)
         \<and> tickets_table (snd down) = tickets_table (snd up)
         \<and> bookings_table (snd down) = bookings_table (snd up)
         \<and> event_cache (snd down) = event_cache (snd up)
         \<and> booking_cache (snd down) = booking_cache (snd up)
         \<and> count_cache (snd down) = count_cache (snd up)
         \<and> sqs_sent (snd down) = sqs_sent w)"

section \<open>An example state\<close>

text \<open>
  One active event with two available vip tickets and two available standard tickets, no
  booking, empty caches, no lock held and the queue service up.
\<close>

definition example_ticket :: "string \<Rightarrow> int \<Rightarrow> ticket" where
  "example_ticket tier p =
     \<lparr>tk_tier = Some tier, tk_price = Some p, tk_seat_number = Some ''A01-01'',
      tk_status = Some ''available'', tk_reserved_by = None, tk_reserved_until = None\<rparr>"

definition example_world :: world where
  "example_world =
     \<lparr>events_table = [(''e1'', \<lparr>ev_event_id = ''e1'', ev_status = Some ''active''\<rparr>)],
      tickets_table = [((''e1'', ''v1''), example_ticket ''vip'' 200),
                       ((''e1'', ''v2''), example_ticket ''vip'' 200),
                       ((''e1'', ''s1''), example_ticket ''standard'' 50),
                       ((''e1'', ''s2''), example_ticket ''standard'' 50)],
      bookings_table = [],
      event_cache = (\<lambda>k. None),
      booking_cache = (\<lambda>k. None),
      count_cache = (\<lambda>k. None),
      locks = [],
      sqs_fault = None,
      sqs_sent = []\<rparr>"

text \<open>
  An example of \<open>timestamp\<close>: the whole seconds of an instant after the epoch, on a host
  whose local time is UTC.
\<close>

definition utc_timestamp :: "int \<Rightarrow> int" where
  "utc_timestamp t = t div 1000000"

definition accept_all :: "request_body \<Rightarrow> string option" where
  "accept_all b = None"

definition reserve_body :: "ticket_request list \<Rightarrow> request_body" where
  "reserve_body reqs =
     \<lparr>rb_event_id = ''e1'', rb_tickets = reqs, rb_booking_id = None, rb_payment_method = []\<rparr>"

definition api_request :: "string \<Rightarrow> string \<Rightarrow> request_body \<Rightarrow> string \<Rightarrow> string \<Rightarrow> api_event" where
  "api_request method p b booking_id user_id =
     \<lparr>ae_httpMethod = method, ae_path = p, ae_body = b,
      ae_queryStringParameters = \<lparr>qp_limit = None, qp_last_key = None, qp_status = None\<rparr>,
      ae_booking_id = booking_id, ae_user_id = user_id\<rparr>"

text \<open>
  The request of the spec's example: two vip tickets and three standard tickets, of which
  the example state has only two.
\<close>

definition over_request :: request_body where
  "over_request = reserve_body [\<lparr>rq_tier = ''vip'', rq_quantity = 2\<rparr>,
                                \<lparr>rq_tier = ''standard'', rq_quantity = 3\<rparr>]"

text \<open>The example state after bob has reserved the vip ticket \<open>v2\<close>.\<close>

definition raced_world :: world where
  "raced_world = snd (reserve_ticket_in_db 900 ''e1'' ''v2'' ''bob'' example_world)"

text \<open>
  The example state after alice has reserved one vip ticket at \<open>now = 1000\<close> in the booking
  \<open>b1\<close>, which is then in the table and in the cache.
\<close>

definition booked_world :: world where
  "booked_world =
     snd (reserve_tickets accept_all utc_timestamp ''b1'' 1000
            (reserve_body [\<lparr>rq_tier = ''vip'', rq_quantity = 1\<rparr>]) ''alice'' example_world)"

definition confirm_body :: "string \<Rightarrow> request_body" where
  "confirm_body booking_id =
     \<lparr>rb_event_id = [], rb_tickets = [], rb_booking_id = Some booking_id,
      rb_payment_method = [(''type'', ''card'')]\<rparr>"

text \<open>The example state with five active bookings of alice.\<close>

definition held_booking :: "string \<Rightarrow> string \<Rightarrow> booking" where
  "held_booking booking_id st =
     \<lparr>bk_booking_id = booking_id, bk_user_id = Some ''alice'', bk_event_id = Some ''e1'',
      bk_tickets = Some [], bk_total_amount = Some (Decimal 0), bk_status = Some st,
      bk_reserved_until = Some 300000000, bk_created_at = Some 0, bk_updated_at = Some 0,
      bk_ttl = Some 3900\<rparr>"

definition five_bookings_world :: world where
  "five_bookings_world =
     example_world\<lparr>bookings_table :=
       [(''a1'', held_booking ''a1'' ''reserved''),
        (''a2'', held_booking ''a2'' ''processing''),
        (''a3'', held_booking ''a3'' ''confirmed''),
        (''a4'', held_booking ''a4'' ''confirmed''),
        (''a5'', held_booking ''a5'' ''reserved''),
        (''a6'', held_booking ''a6'' ''cancelled'')]\<rparr>"

text \<open>
  The state \<open>booked_world\<close> in which the stored record of the ticket \<open>v1\<close> of alice's
  booking names bob as its holder.
\<close>

definition taken_world :: world where
  "taken_world =
     booked_world\<lparr>tickets_table :=
       AList.update (''e1'', ''v1'') (reserved_for 1500 ''bob'' (example_ticket ''vip'' 200))
         (tickets_table booked_world)\<rparr>"

text \<open>The booking \<open>b1\<close> that \<open>booked_world\<close> holds.\<close>

definition b1_booking :: booking where
  "b1_booking =
     \<lparr>bk_booking_id = ''b1'', bk_user_id = Some ''alice'', bk_event_id = Some ''e1'',
      bk_tickets = Some [\<lparr>sn_event_id = None, sn_ticket_id = Some ''v1'',
                          sn_tier = Some ''vip'', sn_price = Some 200,
                          sn_seat_number = Some ''A01-01''\<rparr>],
      bk_total_amount = Some (Decimal 200), bk_status = Some ''reserved'',
      bk_reserved_until = Some 300001000, bk_created_at = Some 1000,
      bk_updated_at = Some 1000, bk_ttl = Some 3900\<rparr>"

text \<open>\<open>booked_world\<close> with an empty cache of bookings.\<close>

definition uncached_world :: world where
  "uncached_world = booked_world\<lparr>booking_cache := (\<lambda>k. None)\<rparr>"

text \<open>
  \<open>booked_world\<close> in which the stored booking \<open>b1\<close> is \<open>cancelled\<close> while the cache still
  holds it as \<open>reserved\<close>.
\<close>

definition stale_world :: world where
  "stale_world =
     booked_world\<lparr>bookings_table :=
       AList.update ''b1'' (b1_booking\<lparr>bk_status := Some ''cancelled''\<rparr>)
         (bookings_table booked_world)\<rparr>"

text \<open>
  \<open>booked_world\<close> in which the stored booking \<open>b1\<close> is \<open>confirmed\<close> while the cache still
  holds it as \<open>reserved\<close>.
\<close>

definition paid_world :: world where
  "paid_world =
     booked_world\<lparr>bookings_table :=
       AList.update ''b1'' (b1_booking\<lparr>bk_status := Some ''confirmed''\<rparr>)
         (bookings_table booked_world)\<rparr>"

text \<open>
  The example state after alice has reserved, at \<open>now = 1000\<close>, the booking \<open>b0\<close> of an
  empty list of tickets: its \<open>total_amount\<close> is the \<open>int\<close> 0 in the cache.
\<close>

definition empty_booked_world :: world where
  "empty_booked_world =
     snd (reserve_tickets accept_all utc_timestamp ''b0'' 1000 (reserve_body []) ''alice''
            example_world)"

text \<open>A queue service that is not reached.\<close>

definition unreachable :: "world \<Rightarrow> world" where
  "unreachable w = w\<lparr>sqs_fault := Some (Connection_fault ''EndpointConnectionError'')\<rparr>"

section \<open>Writes to the tickets table\<close>

lemma ticket_of_update:
  "ticket_of (w\<lparr>tickets_table := AList.update k v (tickets_table w)\<rparr>) k' =
     (if k' = k then Some v else ticket_of w k')"
  by (simp add: ticket_of_def update_conv')

lemma reserve_ticket_in_db_eq:
  "reserve_ticket_in_db now e t u w =
     (case ticket_of w (e, t) of
        None \<Rightarrow> (Inr False, w)
      | Some tk \<Rightarrow>
          if tk_status tk = Some ''available''
          then (Inr True,
                w\<lparr>tickets_table :=
                    AList.update (e, t) (reserved_for now u tk) (tickets_table w)\<rparr>)
          else (Inr False, w))"
  by (simp add: reserve_ticket_in_db_def update_item_def ticket_of_def reserved_for_def
      minutes_def seconds_def RESERVATION_TIMEOUT_MINUTES_def split: option.splits)

lemma release_ticket_eq:
  "release_ticket e t w =
     w\<lparr>tickets_table := AList.update (e, t)
          ((case ticket_of w (e, t) of None \<Rightarrow> key_only_ticket | Some tk \<Rightarrow> tk)
             \<lparr>tk_status := Some ''available'', tk_reserved_by := None,
              tk_reserved_until := None\<rparr>)
          (tickets_table w)\<rparr>"
  by (simp add: release_ticket_def update_item_def no_condition_def ticket_of_def)

lemma rollback_reservations_Cons:
  "rollback_reservations (s # rest) u w =
     (case sn_event_id s of
        None \<Rightarrow> (Inl (KeyError ''event_id''), w)
      | Some e \<Rightarrow>
          (case sn_ticket_id s of
             None \<Rightarrow> (Inl (KeyError ''ticket_id''), w)
           | Some t \<Rightarrow> rollback_reservations rest u (rollback_write e t u w)))"
  by (simp add: update_item_def rollback_write_def ticket_of_def split: option.splits)

section \<open>No operation but the conditional write reserves a ticket\<close>

lemma only_reserves_refl [simp]: "only_reserves new w w"
  by (simp add: only_reserves_def)

lemma only_reserves_trans:
  "only_reserves new w w1 \<Longrightarrow> only_reserves new w1 w2 \<Longrightarrow> only_reserves new w w2"
  unfolding only_reserves_def by metis

lemma only_reserves_same_tickets:
  "tickets_table w' = tickets_table w \<Longrightarrow> only_reserves new w w'"
  by (simp add: only_reserves_def ticket_of_def)

lemma only_reserves_io_bind:
  assumes "\<And>w. only_reserves new w (snd (m w))"
      and "\<And>x w. only_reserves new w (snd (f x w))"
  shows "only_reserves new w (snd (io_bind m f w))"
proof (cases "m w")
  case (Pair r w1)
  with assms(1)[of w] have w1: "only_reserves new w w1" by simp
  show ?thesis
  proof (cases r)
    case (Inl e)
    with Pair w1 show ?thesis by (simp add: io_bind_def)
  next
    case (Inr x)
    with Pair assms(2)[of w1 x] have "only_reserves new w1 (snd (io_bind m f w))"
      by (simp add: io_bind_def)
    with w1 show ?thesis by (rule only_reserves_trans)
  qed
qed

lemma only_reserves_raise [simp]: "only_reserves new w (snd (raise e w))"
  by (simp add: raise_def)

lemma only_reserves_return [simp]: "only_reserves new w (snd (return x w))"
  by (simp add: return_def)

lemma only_reserves_getitem [simp]: "only_reserves new w (snd (getitem x k w))"
  by (simp add: getitem_def split: option.splits)

lemma only_reserves_reserve_ticket_in_db [simp]:
  "only_reserves (held_by now u) w (snd (reserve_ticket_in_db now e t u w))"
  by (auto simp: reserve_ticket_in_db_eq only_reserves_def ticket_of_update held_by_def
      reserved_for_def split: option.splits)

lemma only_reserves_release_ticket [simp]: "only_reserves new w (release_ticket e t w)"
  by (auto simp: release_ticket_eq only_reserves_def ticket_of_update is_reserved_def)

lemma only_reserves_rollback_write [simp]: "only_reserves new w (rollback_write e t u w)"
  by (auto simp: rollback_write_def only_reserves_def ticket_of_update is_reserved_def
      split: option.splits)

lemma only_reserves_rollback_reservations [simp]:
  "only_reserves new w (snd (rollback_reservations ts u w))"
proof (induction ts arbitrary: w)
  case Nil
  show ?case by simp
next
  case (Cons s ts)
  show ?case
  proof (cases "sn_event_id s")
    case None
    then show ?thesis by (simp add: rollback_reservations_Cons del: rollback_reservations.simps)
  next
    case (Some e)
    note e = this
    show ?thesis
    proof (cases "sn_ticket_id s")
      case None
      with e show ?thesis
        by (simp add: rollback_reservations_Cons del: rollback_reservations.simps)
    next
      case (Some t)
      have "only_reserves new w (rollback_write e t u w)" by simp
      moreover have "only_reserves new (rollback_write e t u w)
                       (snd (rollback_reservations ts u (rollback_write e t u w)))"
        by (rule Cons.IH)
      ultimately have "only_reserves new w
                         (snd (rollback_reservations ts u (rollback_write e t u w)))"
        by (rule only_reserves_trans)
      with e Some show ?thesis
        by (simp add: rollback_reservations_Cons del: rollback_reservations.simps)
    qed
  qed
qed

lemma only_reserves_release_tickets [simp]:
  "only_reserves new w (snd (release_tickets ev ts w))"
proof (induction ts arbitrary: w)
  case Nil
  show ?case by simp
next
  case (Cons s ts)
  show ?case
  proof (cases ev)
    case None
    then show ?thesis by simp
  next
    case (Some e)
    note e = this
    show ?thesis
    proof (cases "sn_ticket_id s")
      case None
      with e show ?thesis by simp
    next
      case (Some t)
      have "only_reserves new w (release_ticket e t w)" by simp
      moreover have "only_reserves new (release_ticket e t w)
                       (snd (release_tickets ev ts (release_ticket e t w)))"
        by (rule Cons.IH)
      ultimately have "only_reserves new w (snd (release_tickets ev ts (release_ticket e t w)))"
        by (rule only_reserves_trans)
      with e Some show ?thesis by simp
    qed
  qed
qed

lemma only_reserves_get_booking_by_id [simp]:
  "only_reserves new w (snd (get_booking_by_id now b w))"
  by (rule only_reserves_same_tickets) (simp add: get_booking_by_id_def split: option.splits)

lemma only_reserves_update_booking_status [simp]:
  "only_reserves new w (snd (update_booking_status now b st w))"
  by (rule only_reserves_same_tickets)
     (simp add: update_booking_status_def update_item_def no_condition_def io_bind_def
        get_booking_by_id_def get_item_def update_conv' split: option.splits)

lemma send_to_queue_frame:
  "tickets_table (snd (send_to_queue q m w)) = tickets_table w
   \<and> bookings_table (snd (send_to_queue q m w)) = bookings_table w
   \<and> events_table (snd (send_to_queue q m w)) = events_table w
   \<and> event_cache (snd (send_to_queue q m w)) = event_cache w
   \<and> booking_cache (snd (send_to_queue q m w)) = booking_cache w
   \<and> count_cache (snd (send_to_queue q m w)) = count_cache w
   \<and> locks (snd (send_to_queue q m w)) = locks w
   \<and> sqs_fault (snd (send_to_queue q m w)) = sqs_fault w"
  by (simp add: send_to_queue_def sqs_send_message_def
      split: sum.splits option.splits fault.splits)

lemma only_reserves_send_to_queue [simp]: "only_reserves new w (snd (send_to_queue q m w))"
  by (rule only_reserves_same_tickets) (simp add: send_to_queue_frame)

lemma only_reserves_cancel_tail:
  "only_reserves new w
     (snd (io_bind (getitem owner ''user_id'')
             (\<lambda>owner w2. (Inr (), w2\<lparr>count_cache := c owner w2\<rparr>))
             (w\<lparr>booking_cache := c'\<rparr>)))"
  by (rule only_reserves_same_tickets) (simp add: io_bind_def getitem_def split: option.splits)

lemma only_reserves_cancel_booking_internal [simp]:
  "only_reserves new w (snd (cancel_booking_internal now b w))"
  unfolding cancel_booking_internal_def
  apply (rule only_reserves_io_bind)
   apply simp
  apply (simp split: option.splits)
  apply (intro allI impI)
  apply (rule only_reserves_io_bind)
   apply simp
  apply (rule only_reserves_io_bind)
   apply simp
  apply (rule only_reserves_io_bind)
   apply simp
  apply (rule only_reserves_cancel_tail)
  done

lemma only_reserves_cancel_booking:
  "only_reserves new w (snd (cancel_booking now b u w))"
  unfolding cancel_booking_def
  apply (rule only_reserves_io_bind)
   apply simp
  apply (simp split: option.splits)
  apply (intro allI impI)
  apply (rule only_reserves_io_bind)
   apply simp
  apply (simp split: if_splits)
  apply (intro allI impI conjI)
  apply (rule only_reserves_io_bind)
   apply simp
  apply (simp split: if_splits)
  apply (intro allI impI conjI)
  apply (rule only_reserves_io_bind)
   apply simp
  apply simp
  done

lemma only_reserves_get_booking:
  "only_reserves new w (snd (get_booking now b u w))"
  unfolding get_booking_def
  apply (rule only_reserves_io_bind)
   apply simp
  apply (simp split: option.splits)
  apply (intro allI impI)
  apply (rule only_reserves_io_bind)
   apply simp
  apply simp
  done

lemma only_reserves_confirm_booking:
  "only_reserves new w (snd (confirm_booking now body u w))"
  unfolding confirm_booking_def Let_def
  apply (simp split: option.splits)
  apply (intro allI impI conjI)
  apply (rule only_reserves_io_bind)
   apply simp
  apply (simp split: option.splits)
  apply (intro allI impI)
  apply (rule only_reserves_io_bind)
   apply simp
  apply (simp split: if_splits)
  apply (intro allI impI conjI)
  apply (rule only_reserves_io_bind)
   apply simp
  apply (simp split: if_splits)
  apply (intro allI impI conjI)
  apply (rule only_reserves_io_bind)
   apply simp
  apply (simp split: if_splits)
  apply (intro allI impI conjI)
   apply (rule only_reserves_io_bind)
    apply simp
   apply simp
  apply (rule only_reserves_io_bind)
   apply simp
  apply (rule only_reserves_io_bind)
   apply simp
  apply (rule only_reserves_io_bind)
   apply simp
  apply simp
  done

lemma only_reserves_reserve_tier:
  "only_reserves (held_by now u) w (snd (snd (reserve_tier now e tier u items acc w)))"
proof (induction items arbitrary: acc w)
  case Nil
  show ?case by simp
next
  case (Cons item items)
  obtain rt ta where acc: "acc = (rt, ta)" by (cases acc)
  obtain r w1 where r: "reserve_ticket_in_db now e (snd (fst item)) u w = (r, w1)"
    by (cases "reserve_ticket_in_db now e (snd (fst item)) u w")
  have s1: "only_reserves (held_by now u) w w1"
    using only_reserves_reserve_ticket_in_db[of now u w e "snd (fst item)"] r by simp
  show ?case
  proof (cases r)
    case (Inl x)
    with acc r s1 show ?thesis by simp
  next
    case (Inr ok)
    show ?thesis
    proof (cases ok)
      case True
      show ?thesis
      proof (cases "tk_price (snd item)")
        case None
        with acc r s1 Inr True show ?thesis by simp
      next
        case (Some p)
        have "only_reserves (held_by now u) w1
                (snd (snd (reserve_tier now e tier u items acc' w1)))" for acc'
          by (rule Cons.IH)
        then have "only_reserves (held_by now u) w
                (snd (snd (reserve_tier now e tier u items acc' w1)))" for acc'
          using s1 only_reserves_trans by blast
        with acc r Inr True Some show ?thesis by simp
      qed
    next
      case False
      have "only_reserves (held_by now u) w (snd (rollback_reservations rt u w1))"
        using s1 only_reserves_rollback_reservations only_reserves_trans by blast
      with acc r Inr False show ?thesis
        by (cases "rollback_reservations rt u w1") (auto split: sum.splits)
    qed
  qed
qed

lemma only_reserves_reserve_requests:
  "only_reserves (held_by now u) w (snd (snd (reserve_requests now e u reqs acc w)))"
proof (induction reqs arbitrary: acc w)
  case Nil
  show ?case by simp
next
  case (Cons req reqs)
  show ?case
  proof (cases "get_available_tickets e (rq_tier req) (rq_quantity req) w")
    case (Inl x)
    then show ?thesis by simp
  next
    case (Inr av)
    show ?thesis
    proof (cases "int (length av) < rq_quantity req")
      case True
      with Inr show ?thesis by simp
    next
      case False
      obtain x acc1 w1 where t: "reserve_tier now e (rq_tier req) u
           (take (nat (rq_quantity req)) av) acc w = (x, acc1, w1)"
        by (cases "reserve_tier now e (rq_tier req) u (take (nat (rq_quantity req)) av) acc w")
          auto
      have s1: "only_reserves (held_by now u) w w1"
        using only_reserves_reserve_tier[of now u w e "rq_tier req"
            "take (nat (rq_quantity req)) av" acc] t by simp
      show ?thesis
      proof (cases x)
        case None
        have "only_reserves (held_by now u) w1
                (snd (snd (reserve_requests now e u reqs acc1 w1)))"
          by (rule Cons.IH)
        with s1 have "only_reserves (held_by now u) w
                (snd (snd (reserve_requests now e u reqs acc1 w1)))"
          by (rule only_reserves_trans)
        with Inr False t None show ?thesis by simp
      next
        case (Some ex)
        with Inr False t s1 show ?thesis by simp
      qed
    qed
  qed
qed

lemma create_booking_eq:
  "create_booking stamp new_id now e u rt ta w =
     (case send_to_queue BOOKING_QUEUE_URL (Process_reservation new_id u)
             (w\<lparr>bookings_table :=
                  put_item (bookings_table w) new_id
                    (as_item
                       \<lparr>bk_booking_id = new_id, bk_user_id = Some u, bk_event_id = Some e,
                        bk_tickets = Some rt, bk_total_amount = Some ta,
                        bk_status = Some ''reserved'',
                        bk_reserved_until = Some (now + 300000000),
                        bk_created_at = Some now, bk_updated_at = Some now,
                        bk_ttl = Some (stamp (now + 300000000) + 3600)\<rparr>),
                booking_cache :=
                  cache_set now (booking_cache w) new_id
                    \<lparr>bk_booking_id = new_id, bk_user_id = Some u, bk_event_id = Some e,
                     bk_tickets = Some rt, bk_total_amount = Some ta,
                     bk_status = Some ''reserved'',
                     bk_reserved_until = Some (now + 300000000),
                     bk_created_at = Some now, bk_updated_at = Some now,
                     bk_ttl = Some (stamp (now + 300000000) + 3600)\<rparr> 300\<rparr>) of
        (Inl x, w1) \<Rightarrow> (Inl x, w1)
      | (Inr x, w1) \<Rightarrow>
          (Inr (create_response 201
                  (Reserved_body new_id ''reserved'' (now + 300000000) rt ta 5)), w1))"
  by (simp add: create_booking_def Let_def io_bind_def return_def minutes_def seconds_def
      RESERVATION_TIMEOUT_MINUTES_def split: prod.splits sum.splits)

lemma only_reserves_create_booking:
  "only_reserves new w (snd (create_booking stamp new_id now e u rt ta w))"
  by (rule only_reserves_same_tickets)
     (simp add: create_booking_eq case_prod_beta send_to_queue_frame split: sum.splits)

lemma only_reserves_reserve_under_lock:
  "only_reserves (held_by now u) w (snd (reserve_under_lock stamp new_id now e u reqs w))"
proof -
  obtain x rt ta w4 where t: "reserve_requests now e u reqs ([], 0) w = (x, (rt, ta), w4)"
    by (cases "reserve_requests now e u reqs ([], 0) w") auto
  have s1: "only_reserves (held_by now u) w w4"
    using only_reserves_reserve_requests[of now u w e reqs "([], 0)"] t by simp
  show ?thesis
  proof (cases x)
    case None
    obtain r w5 where c: "create_booking stamp new_id now e u rt ta w4 = (r, w5)"
      by (cases "create_booking stamp new_id now e u rt ta w4")
    have "only_reserves (held_by now u) w4 w5"
      using only_reserves_create_booking[of "held_by now u" w4 stamp new_id now e u rt ta] c
      by simp
    with s1 have s2: "only_reserves (held_by now u) w w5"
      by (rule only_reserves_trans)
    show ?thesis
    proof (cases r)
      case (Inr resp)
      with t None c s2 show ?thesis by (simp add: reserve_under_lock_def)
    next
      case (Inl ex)
      have "only_reserves (held_by now u) w5
              (snd (io_bind (rollback_reservations rt u) (\<lambda>x. raise ex) w5))"
        by (rule only_reserves_io_bind) simp_all
      with s2 have "only_reserves (held_by now u) w
              (snd (io_bind (rollback_reservations rt u) (\<lambda>x. raise ex) w5))"
        by (rule only_reserves_trans)
      with t None c Inl show ?thesis by (simp add: reserve_under_lock_def)
    qed
  next
    case (Some ex)
    have "only_reserves (held_by now u) w4
            (snd (io_bind (rollback_reservations rt u) (\<lambda>x. raise ex) w4))"
      by (rule only_reserves_io_bind) simp_all
    with s1 have "only_reserves (held_by now u) w
            (snd (io_bind (rollback_reservations rt u) (\<lambda>x. raise ex) w4))"
      by (rule only_reserves_trans)
    with t Some show ?thesis by (simp add: reserve_under_lock_def)
  qed
qed

lemma only_reserves_distributed_lock:
  "(\<And>w. only_reserves new w (snd (block w))) \<Longrightarrow>
   only_reserves new w (snd (distributed_lock key block w))"
  by (simp add: distributed_lock_def)

lemma only_reserves_reserve_tickets:
  "only_reserves (held_by now u) w (snd (reserve_tickets v stamp new_id now body u w))"
proof (cases "v body")
  case (Some msg)
  then show ?thesis by (simp add: reserve_tickets_def)
next
  case None
  obtain n w1 where c: "get_user_active_bookings_count now u w = (n, w1)"
    by (cases "get_user_active_bookings_count now u w")
  have t1: "tickets_table w1 = tickets_table w"
    using c by (auto simp: get_user_active_bookings_count_def Let_def split: option.splits)
  obtain ev w2 where g: "get_event now (rb_event_id body) w1 = (ev, w2)"
    by (cases "get_event now (rb_event_id body) w1")
  have t2: "tickets_table w2 = tickets_table w1"
    using g by (auto simp: get_event_def split: option.splits)
  have s2: "only_reserves (held_by now u) w w2"
    using t1 t2 by (simp add: only_reserves_same_tickets)
  have s1: "only_reserves (held_by now u) w w1"
    using t1 by (simp add: only_reserves_same_tickets)
  show ?thesis
  proof (cases "n + sum_list (map rq_quantity (rb_tickets body)) > MAX_TICKETS_PER_USER")
    case True
    with None c s1 show ?thesis by (simp add: reserve_tickets_def)
  next
    case False
    show ?thesis
    proof (cases ev)
      case None
      with \<open>v body = None\<close> c g s2 False show ?thesis by (simp add: reserve_tickets_def)
    next
      case (Some event)
      have "only_reserves (held_by now u) w2
              (snd (io_bind (getitem (ev_status event) ''status'')
                 (\<lambda>status.
                    if status \<noteq> ''active''
                    then raise (BookingError ''Event not available for booking'')
                    else distributed_lock (''booking_lock:'' @ rb_event_id body)
                           (reserve_under_lock stamp new_id now (rb_event_id body) u
                              (rb_tickets body)))
                 w2))"
        apply (rule only_reserves_io_bind)
         apply simp
        apply (simp split: if_splits)
        apply (intro impI)
        apply (rule only_reserves_distributed_lock)
        apply (rule only_reserves_reserve_under_lock)
        done
      with s2 have "only_reserves (held_by now u) w
              (snd (io_bind (getitem (ev_status event) ''status'')
                 (\<lambda>status.
                    if status \<noteq> ''active''
                    then raise (BookingError ''Event not available for booking'')
                    else distributed_lock (''booking_lock:'' @ rb_event_id body)
                           (reserve_under_lock stamp new_id now (rb_event_id body) u
                              (rb_tickets body)))
                 w2))"
        by (rule only_reserves_trans)
      with \<open>v body = None\<close> c g False Some show ?thesis
        by (simp add: reserve_tickets_def Let_def)
    qed
  qed
qed

lemma only_reserves_lambda_handler:
  "only_reserves (held_by now (ae_user_id event)) w
     (snd (lambda_handler v stamp new_id now event w))"
  using only_reserves_reserve_tickets[of now "ae_user_id event" w v stamp new_id "ae_body event"]
    only_reserves_confirm_booking[of "held_by now (ae_user_id event)" w now "ae_body event"
      "ae_user_id event"]
    only_reserves_get_booking[of "held_by now (ae_user_id event)" w now "ae_booking_id event"
      "ae_user_id event"]
    only_reserves_cancel_booking[of "held_by now (ae_user_id event)" w now "ae_booking_id event"
      "ae_user_id event"]
  by (simp add: lambda_handler_def Let_def case_prod_beta get_user_bookings_def)

subsection \<open>A ticket is reserved from \<open>available\<close> only\<close>

lemma reserved_for_not_available: "tk_status (reserved_for now u t) \<noteq> Some ''available''"
  by (simp add: reserved_for_def)

lemma reserves_available_refl [simp]: "reserves_available now u w w"
  by (simp add: reserves_available_def)

lemma reserves_available_same_tickets:
  "tickets_table w' = tickets_table w \<Longrightarrow> reserves_available now u w w'"
  by (simp add: reserves_available_def ticket_of_def)

lemma reserves_available_trans:
  assumes "reserves_available now u w w1" and "reserves_available now u w1 w2"
  shows "reserves_available now u w w2"
  unfolding reserves_available_def
proof
  fix k
  from assms(1) have a: "ticket_of w1 k = ticket_of w k
          \<or> (\<exists>t. ticket_of w k = Some t \<and> tk_status t = Some ''available''
                 \<and> ticket_of w1 k = Some (reserved_for now u t))"
    unfolding reserves_available_def by blast
  from assms(2) have b: "ticket_of w2 k = ticket_of w1 k
          \<or> (\<exists>t. ticket_of w1 k = Some t \<and> tk_status t = Some ''available''
                 \<and> ticket_of w2 k = Some (reserved_for now u t))"
    unfolding reserves_available_def by blast
  from a b show "ticket_of w2 k = ticket_of w k
          \<or> (\<exists>t. ticket_of w k = Some t \<and> tk_status t = Some ''available''
                 \<and> ticket_of w2 k = Some (reserved_for now u t))"
    by (metis reserved_for_not_available option.inject)
qed

lemma reserved_from_availableI:
  "reserves_available now u w w' \<Longrightarrow> reserved_from_available now u w w'"
  by (simp add: reserves_available_def reserved_from_available_def)

lemma reserved_from_available_after:
  assumes "reserves_available now u w w1" and "reserved_from_available now u w1 w2"
  shows "reserved_from_available now u w w2"
  unfolding reserved_from_available_def
proof (intro allI impI)
  fix k
  assume r: "is_reserved (ticket_of w2 k)"
  from assms(1) have a: "ticket_of w1 k = ticket_of w k
          \<or> (\<exists>t. ticket_of w k = Some t \<and> tk_status t = Some ''available''
                 \<and> ticket_of w1 k = Some (reserved_for now u t))"
    unfolding reserves_available_def by blast
  from assms(2) r have b: "ticket_of w2 k = ticket_of w1 k
          \<or> (\<exists>t. ticket_of w1 k = Some t \<and> tk_status t = Some ''available''
                 \<and> ticket_of w2 k = Some (reserved_for now u t))"
    unfolding reserved_from_available_def by blast
  from a b show "ticket_of w2 k = ticket_of w k
          \<or> (\<exists>t. ticket_of w k = Some t \<and> tk_status t = Some ''available''
                 \<and> ticket_of w2 k = Some (reserved_for now u t))"
    by (metis reserved_for_not_available option.inject)
qed

lemma reserved_from_available_then:
  assumes "reserved_from_available now u w w1" and "only_reserves never w1 w2"
  shows "reserved_from_available now u w w2"
  using assms unfolding reserved_from_available_def only_reserves_def never_def
  by metis

lemma reserved_from_available_never:
  "only_reserves never w w' \<Longrightarrow> reserved_from_available now u w w'"
  unfolding reserved_from_available_def only_reserves_def never_def by metis

lemma reserves_available_reserve_ticket_in_db:
  "reserves_available now u w (snd (reserve_ticket_in_db now e t u w))"
  by (auto simp: reserve_ticket_in_db_eq reserves_available_def ticket_of_update
      split: option.splits)

lemma reserves_available_reserve_tier:
  "reserved_from_available now u w (snd (snd (reserve_tier now e tier u items acc w)))
   \<and> (fst (reserve_tier now e tier u items acc w) = None \<longrightarrow>
        reserves_available now u w (snd (snd (reserve_tier now e tier u items acc w))))"
proof (induction items arbitrary: acc w)
  case Nil
  show ?case by (simp add: reserved_from_availableI)
next
  case (Cons item items)
  obtain rt ta where acc: "acc = (rt, ta)" by (cases acc)
  obtain r w1 where r: "reserve_ticket_in_db now e (snd (fst item)) u w = (r, w1)"
    by (cases "reserve_ticket_in_db now e (snd (fst item)) u w")
  have s1: "reserves_available now u w w1"
    using reserves_available_reserve_ticket_in_db[of now u w e "snd (fst item)"] r by simp
  show ?case
  proof (cases r)
    case (Inl x)
    with acc r s1 show ?thesis by (simp add: reserved_from_availableI)
  next
    case (Inr ok)
    show ?thesis
    proof (cases ok)
      case True
      show ?thesis
      proof (cases "tk_price (snd item)")
        case None
        with acc r s1 Inr True show ?thesis by (simp add: reserved_from_availableI)
      next
        case (Some p)
        let ?acc = "(rt @ [\<lparr>sn_event_id = None, sn_ticket_id = Some (snd (fst item)),
                 sn_tier = Some tier, sn_price = Some p,
                 sn_seat_number = Some (case tk_seat_number (snd item) of
                                          None \<Rightarrow> [] | Some seat \<Rightarrow> seat)\<rparr>],
                 ta + Decimal p)"
        note ih = Cons.IH[of w1 ?acc]
        from ih s1 have t: "reserved_from_available now u w
            (snd (snd (reserve_tier now e tier u items ?acc w1)))"
          using reserved_from_available_after by blast
        from ih s1 have a: "fst (reserve_tier now e tier u items ?acc w1) = None \<longrightarrow>
            reserves_available now u w (snd (snd (reserve_tier now e tier u items ?acc w1)))"
          using reserves_available_trans by blast
        from t a acc r Inr True Some show ?thesis by simp
      qed
    next
      case False
      obtain x w2 where rb: "rollback_reservations rt u w1 = (x, w2)"
        by (cases "rollback_reservations rt u w1")
      have "only_reserves never w1 w2"
        using only_reserves_rollback_reservations[of never w1 rt u] rb by simp
      with s1 have "reserved_from_available now u w w2"
        using reserved_from_availableI reserved_from_available_then by blast
      with acc r Inr False rb show ?thesis by (cases x) simp_all
    qed
  qed
qed

lemma reserves_available_reserve_requests:
  "reserved_from_available now u w (snd (snd (reserve_requests now e u reqs acc w)))
   \<and> (fst (reserve_requests now e u reqs acc w) = None \<longrightarrow>
        reserves_available now u w (snd (snd (reserve_requests now e u reqs acc w))))"
proof (induction reqs arbitrary: acc w)
  case Nil
  show ?case by (simp add: reserved_from_availableI)
next
  case (Cons req reqs)
  show ?case
  proof (cases "get_available_tickets e (rq_tier req) (rq_quantity req) w")
    case (Inl x)
    then show ?thesis by (simp add: reserved_from_availableI)
  next
    case (Inr av)
    show ?thesis
    proof (cases "int (length av) < rq_quantity req")
      case True
      with Inr show ?thesis by (simp add: reserved_from_availableI)
    next
      case False
      obtain x acc1 w1 where t: "reserve_tier now e (rq_tier req) u
           (take (nat (rq_quantity req)) av) acc w = (x, acc1, w1)"
        by (cases "reserve_tier now e (rq_tier req) u (take (nat (rq_quantity req)) av) acc w")
          auto
      note tier = reserves_available_reserve_tier[of now u w e "rq_tier req"
            "take (nat (rq_quantity req)) av" acc]
      show ?thesis
      proof (cases x)
        case None
        with tier t have s1: "reserves_available now u w w1" by simp
        note ih = Cons.IH[of w1 acc1]
        from ih s1 have r: "reserved_from_available now u w
            (snd (snd (reserve_requests now e u reqs acc1 w1)))"
          using reserved_from_available_after by blast
        from ih s1 have a: "fst (reserve_requests now e u reqs acc1 w1) = None \<longrightarrow>
            reserves_available now u w (snd (snd (reserve_requests now e u reqs acc1 w1)))"
          using reserves_available_trans by blast
        from r a Inr False t None show ?thesis by simp
      next
        case (Some ex)
        with tier t have "reserved_from_available now u w w1" by simp
        with Inr False t Some show ?thesis by simp
      qed
    qed
  qed
qed

lemma reserved_from_available_reserve_under_lock:
  "reserved_from_available now u w (snd (reserve_under_lock stamp new_id now e u reqs w))"
proof -
  obtain x rt ta w4 where t: "reserve_requests now e u reqs ([], 0) w = (x, (rt, ta), w4)"
    by (cases "reserve_requests now e u reqs ([], 0) w") auto
  note loops = reserves_available_reserve_requests[of now u w e reqs "([], 0)"]
  show ?thesis
  proof (cases x)
    case None
    with loops t have s1: "reserves_available now u w w4" by simp
    obtain r w5 where c: "create_booking stamp new_id now e u rt ta w4 = (r, w5)"
      by (cases "create_booking stamp new_id now e u rt ta w4")
    have "tickets_table (snd (create_booking stamp new_id now e u rt ta w4)) = tickets_table w4"
      by (simp add: create_booking_eq case_prod_beta send_to_queue_frame split: sum.splits)
    with c have "tickets_table w5 = tickets_table w4" by simp
    then have "reserves_available now u w4 w5"
      by (rule reserves_available_same_tickets)
    with s1 have s2: "reserves_available now u w w5"
      by (rule reserves_available_trans)
    show ?thesis
    proof (cases r)
      case (Inr resp)
      with t None c s2 show ?thesis
        by (simp add: reserve_under_lock_def reserved_from_availableI)
    next
      case (Inl ex)
      have "only_reserves never w5
              (snd (io_bind (rollback_reservations rt u) (\<lambda>x. raise ex) w5))"
        by (rule only_reserves_io_bind) simp_all
      with s2 have "reserved_from_available now u w
              (snd (io_bind (rollback_reservations rt u) (\<lambda>x. raise ex) w5))"
        using reserved_from_availableI reserved_from_available_then by blast
      with t None c Inl show ?thesis by (simp add: reserve_under_lock_def)
    qed
  next
    case (Some ex)
    with loops t have s1: "reserved_from_available now u w w4" by simp
    have "only_reserves never w4
            (snd (io_bind (rollback_reservations rt u) (\<lambda>x. raise ex) w4))"
      by (rule only_reserves_io_bind) simp_all
    with s1 have "reserved_from_available now u w
            (snd (io_bind (rollback_reservations rt u) (\<lambda>x. raise ex) w4))"
      by (rule reserved_from_available_then)
    with t Some show ?thesis by (simp add: reserve_under_lock_def)
  qed
qed


lemma reserved_from_available_refl [simp]: "reserved_from_available now u w w"
  by (simp add: reserved_from_available_def)

lemma reserved_from_available_reserve_tickets:
  "reserved_from_available now u w (snd (reserve_tickets v stamp new_id now body u w))"
proof (cases "v body")
  case (Some msg)
  then show ?thesis by (simp add: reserve_tickets_def)
next
  case None
  obtain n w1 where c: "get_user_active_bookings_count now u w = (n, w1)"
    by (cases "get_user_active_bookings_count now u w")
  have t1: "tickets_table w1 = tickets_table w"
    using c by (auto simp: get_user_active_bookings_count_def Let_def split: option.splits)
  obtain ev w2 where g: "get_event now (rb_event_id body) w1 = (ev, w2)"
    by (cases "get_event now (rb_event_id body) w1")
  have t2: "tickets_table w2 = tickets_table w1"
    using g by (auto simp: get_event_def split: option.splits)
  have s1: "reserved_from_available now u w w1"
    using t1 by (simp add: reserves_available_same_tickets reserved_from_availableI)
  have a2: "reserves_available now u w w2"
    using t1 t2 by (simp add: reserves_available_same_tickets)
  then have s2: "reserved_from_available now u w w2"
    by (rule reserved_from_availableI)
  show ?thesis
  proof (cases "n + sum_list (map rq_quantity (rb_tickets body)) > MAX_TICKETS_PER_USER")
    case True
    with None c s1 show ?thesis by (simp add: reserve_tickets_def)
  next
    case False
    show ?thesis
    proof (cases ev)
      case None
      with \<open>v body = None\<close> c g s2 False show ?thesis by (simp add: reserve_tickets_def)
    next
      case (Some event)
      have "reserved_from_available now u w2
              (snd (reserve_under_lock stamp new_id now (rb_event_id body) u (rb_tickets body)
                      w2))"
        by (rule reserved_from_available_reserve_under_lock)
      with a2 have "reserved_from_available now u w
              (snd (reserve_under_lock stamp new_id now (rb_event_id body) u (rb_tickets body)
                      w2))"
        by (rule reserved_from_available_after)
      with \<open>v body = None\<close> c g False Some s2 show ?thesis
        by (simp add: reserve_tickets_def Let_def io_bind_def getitem_def raise_def
            distributed_lock_def split: option.splits)
    qed
  qed
qed

lemma reserved_from_available_lambda_handler:
  "reserved_from_available now (ae_user_id event) w
     (snd (lambda_handler v stamp new_id now event w))"
  using reserved_from_available_reserve_tickets[of now "ae_user_id event" w v stamp new_id
      "ae_body event"]
    reserved_from_available_never[OF only_reserves_confirm_booking,
      of now "ae_user_id event" w now "ae_body event" "ae_user_id event"]
    reserved_from_available_never[OF only_reserves_get_booking,
      of now "ae_user_id event" w now "ae_booking_id event" "ae_user_id event"]
    reserved_from_available_never[OF only_reserves_cancel_booking,
      of now "ae_user_id event" w now "ae_booking_id event" "ae_user_id event"]
  by (simp add: lambda_handler_def Let_def case_prod_beta get_user_bookings_def)

text \<open>
  C1. The conditional update of \<open>reserve_ticket_in_db\<close> takes effect only when the stored
  status of the ticket is \<open>available\<close>; it then sets the status to \<open>reserved\<close>,
  \<open>reserved_by\<close> to the user and \<open>reserved_until\<close> to five minutes after \<open>now\<close>, and
  otherwise leaves the state as it is. Of two attempts on the same ticket, in either
  order of arrival at the store, at most one succeeds, and the ticket stays with the user
  whose write succeeded. No other write reserves a ticket: after \<open>release_ticket\<close>,
  \<open>rollback_reservations\<close>, \<open>confirm_booking\<close>, \<open>cancel_booking\<close> or \<open>get_booking\<close> a
  reserved ticket has the record it had before, and after any request to
  \<open>lambda_handler\<close> a reserved ticket has the record it had before or is held by the
  requesting user until five minutes after \<open>now\<close>; in the second case the ticket was
  available before the request and its record is the one that the conditional write
  leaves.
\<close>

theorem reserve_ticket_in_db_sole_transition:
  "reserve_ticket_in_db now e t u w =
     (case ticket_of w (e, t) of
        None \<Rightarrow> (Inr False, w)
      | Some tk \<Rightarrow>
          if tk_status tk = Some ''available''
          then (Inr True,
                w\<lparr>tickets_table :=
                    AList.update (e, t) (reserved_for now u tk) (tickets_table w)\<rparr>)
          else (Inr False, w))
   \<and> \<not> (fst (reserve_ticket_in_db now e t u w) = Inr True
        \<and> fst (reserve_ticket_in_db now' e t u'
                 (snd (reserve_ticket_in_db now e t u w))) = Inr True)
   \<and> (fst (reserve_ticket_in_db now e t u w) = Inr True \<longrightarrow>
        (\<exists>tk. ticket_of (snd (reserve_ticket_in_db now' e t u'
                               (snd (reserve_ticket_in_db now e t u w)))) (e, t) = Some tk
              \<and> held_by now u tk))
   \<and> only_reserves never w (release_ticket e' t' w)
   \<and> only_reserves never w (snd (rollback_reservations ts u' w))
   \<and> only_reserves never w (snd (confirm_booking now body u w))
   \<and> only_reserves never w (snd (cancel_booking now b u w))
   \<and> only_reserves never w (snd (get_booking now b u w))
   \<and> only_reserves (held_by now (ae_user_id event)) w
        (snd (lambda_handler v stamp new_id now event w))
   \<and> reserved_from_available now (ae_user_id event) w
        (snd (lambda_handler v stamp new_id now event w))"
proof -
  have race: "\<not> (fst (reserve_ticket_in_db now e t u w) = Inr True
        \<and> fst (reserve_ticket_in_db now' e t u'
                 (snd (reserve_ticket_in_db now e t u w))) = Inr True)"
    by (simp add: reserve_ticket_in_db_eq ticket_of_update reserved_for_def
        split: option.splits)
  have keeps: "fst (reserve_ticket_in_db now e t u w) = Inr True \<longrightarrow>
        (\<exists>tk. ticket_of (snd (reserve_ticket_in_db now' e t u'
                               (snd (reserve_ticket_in_db now e t u w)))) (e, t) = Some tk
              \<and> held_by now u tk)"
    by (simp add: reserve_ticket_in_db_eq ticket_of_update reserved_for_def held_by_def
        split: option.splits)
  show ?thesis
    using race keeps reserve_ticket_in_db_eq[of now e t u w]
      only_reserves_release_ticket[of never w e' t']
      only_reserves_rollback_reservations[of never w ts u']
      only_reserves_confirm_booking[of never w now body u]
      only_reserves_cancel_booking[of never w now b u]
      only_reserves_get_booking[of never w now b u]
      only_reserves_lambda_handler[of now event w v stamp new_id]
      reserved_from_available_lambda_handler[of now event w v stamp new_id]
    by blast
qed

theorem reserve_ticket_in_db_sole_transition_witness:
  "fst (reserve_ticket_in_db 0 ''e1'' ''v1'' ''alice'' example_world) = Inr True
   \<and> fst (reserve_ticket_in_db 7 ''e1'' ''v1'' ''bob''
            (snd (reserve_ticket_in_db 0 ''e1'' ''v1'' ''alice'' example_world))) = Inr False
   \<and> (\<exists>tk. ticket_of (snd (reserve_ticket_in_db 7 ''e1'' ''v1'' ''bob''
                            (snd (reserve_ticket_in_db 0 ''e1'' ''v1'' ''alice'' example_world))))
              (''e1'', ''v1'') = Some tk
           \<and> held_by 0 ''alice'' tk)
   \<and> is_reserved (ticket_of (snd (lambda_handler accept_all utc_timestamp ''b1'' 0
        (api_request ''POST'' ''/booking/reserve''
           (reserve_body [\<lparr>rq_tier = ''vip'', rq_quantity = 1\<rparr>]) [] ''alice'')
        example_world)) (''e1'', ''v1''))
   \<and> (\<exists>tk. ticket_of (snd (lambda_handler accept_all utc_timestamp ''b1'' 0
        (api_request ''POST'' ''/booking/reserve''
           (reserve_body [\<lparr>rq_tier = ''vip'', rq_quantity = 1\<rparr>]) [] ''alice'')
        example_world)) (''e1'', ''v1'') = Some tk \<and> held_by 0 ''alice'' tk)
   \<and> (\<exists>t. ticket_of example_world (''e1'', ''v1'') = Some t
           \<and> tk_status t = Some ''available''
           \<and> ticket_of (snd (lambda_handler accept_all utc_timestamp ''b1'' 0
                 (api_request ''POST'' ''/booking/reserve''
                    (reserve_body [\<lparr>rq_tier = ''vip'', rq_quantity = 1\<rparr>]) [] ''alice'')
                 example_world)) (''e1'', ''v1'') = Some (reserved_for 0 ''alice'' t))"
proof -
  note inst = reserve_ticket_in_db_sole_transition[where now = 0 and e = "''e1''"
      and t = "''v1''" and u = "''alice''" and w = example_world and now' = 7
      and u' = "''bob''" and v = accept_all and stamp = utc_timestamp and new_id = "''b1''"
      and event = "api_request ''POST'' ''/booking/reserve''
           (reserve_body [\<lparr>rq_tier = ''vip'', rq_quantity = 1\<rparr>]) [] ''alice''"]
  have first: "fst (reserve_ticket_in_db 0 ''e1'' ''v1'' ''alice'' example_world) = Inr True"
    by code_simp
  have second: "fst (reserve_ticket_in_db 7 ''e1'' ''v1'' ''bob''
            (snd (reserve_ticket_in_db 0 ''e1'' ''v1'' ''alice'' example_world))) = Inr False"
    by code_simp
  from inst first have keeps: "\<exists>tk. ticket_of (snd (reserve_ticket_in_db 7 ''e1'' ''v1'' ''bob''
                            (snd (reserve_ticket_in_db 0 ''e1'' ''v1'' ''alice'' example_world))))
              (''e1'', ''v1'') = Some tk
           \<and> held_by 0 ''alice'' tk"
    by blast
  have user: "ae_user_id (api_request ''POST'' ''/booking/reserve''
           (reserve_body [\<lparr>rq_tier = ''vip'', rq_quantity = 1\<rparr>]) [] ''alice'') = ''alice''"
    by (simp add: api_request_def)
  have after: "is_reserved (ticket_of (snd (lambda_handler accept_all utc_timestamp ''b1'' 0
        (api_request ''POST'' ''/booking/reserve''
           (reserve_body [\<lparr>rq_tier = ''vip'', rq_quantity = 1\<rparr>]) [] ''alice'')
        example_world)) (''e1'', ''v1''))"
    by code_simp
  have before: "\<not> is_reserved (ticket_of example_world (''e1'', ''v1''))"
    by code_simp
  from inst have "only_reserves (held_by 0 ''alice'') example_world
      (snd (lambda_handler accept_all utc_timestamp ''b1'' 0
        (api_request ''POST'' ''/booking/reserve''
           (reserve_body [\<lparr>rq_tier = ''vip'', rq_quantity = 1\<rparr>]) [] ''alice'')
        example_world))"
    by (simp add: user)
  with after before have held: "\<exists>tk. ticket_of (snd (lambda_handler accept_all utc_timestamp ''b1'' 0
        (api_request ''POST'' ''/booking/reserve''
           (reserve_body [\<lparr>rq_tier = ''vip'', rq_quantity = 1\<rparr>]) [] ''alice'')
        example_world)) (''e1'', ''v1'') = Some tk \<and> held_by 0 ''alice'' tk"
    unfolding only_reserves_def by metis
  from inst have "reserved_from_available 0 ''alice'' example_world
      (snd (lambda_handler accept_all utc_timestamp ''b1'' 0
        (api_request ''POST'' ''/booking/reserve''
           (reserve_body [\<lparr>rq_tier = ''vip'', rq_quantity = 1\<rparr>]) [] ''alice'')
        example_world))"
    by (simp add: user)
  with after before have avail: "\<exists>t. ticket_of example_world (''e1'', ''v1'') = Some t
           \<and> tk_status t = Some ''available''
           \<and> ticket_of (snd (lambda_handler accept_all utc_timestamp ''b1'' 0
                 (api_request ''POST'' ''/booking/reserve''
                    (reserve_body [\<lparr>rq_tier = ''vip'', rq_quantity = 1\<rparr>]) [] ''alice'')
                 example_world)) (''e1'', ''v1'') = Some (reserved_for 0 ''alice'' t)"
    unfolding reserved_from_available_def by metis
  from first second keeps after held avail show ?thesis by blast
qed

section \<open>The entries of \<open>reserved_tickets\<close>\<close>

lemma io_bind_raise_fails: "fst (io_bind m (\<lambda>u. raise e) w) \<noteq> Inr r"
  by (cases "m w") (auto simp: io_bind_def raise_def split: sum.splits)

lemma reserve_tier_built:
  assumes "\<forall>s \<in> set (fst acc). sn_event_id s = None \<and> sn_ticket_id s \<noteq> None"
  shows "\<forall>s \<in> set (fst (fst (snd (reserve_tier now e tier u items acc w)))).
           sn_event_id s = None \<and> sn_ticket_id s \<noteq> None"
  using assms
proof (induction items arbitrary: acc w)
  case Nil
  then show ?case by simp
next
  case (Cons item items)
  obtain rt ta where acc: "acc = (rt, ta)" by (cases acc)
  obtain r w1 where r: "reserve_ticket_in_db now e (snd (fst item)) u w = (r, w1)"
    by (cases "reserve_ticket_in_db now e (snd (fst item)) u w")
  show ?case
  proof (cases r)
    case (Inl x)
    with acc r Cons.prems show ?thesis by simp
  next
    case (Inr ok)
    show ?thesis
    proof (cases ok)
      case True
      show ?thesis
      proof (cases "tk_price (snd item)")
        case None
        with acc r Inr True Cons.prems show ?thesis by simp
      next
        case (Some p)
        have "\<forall>s \<in> set (fst (rt @ [\<lparr>sn_event_id = None, sn_ticket_id = Some (snd (fst item)),
                 sn_tier = Some tier, sn_price = Some p,
                 sn_seat_number = Some (case tk_seat_number (snd item) of
                                          None \<Rightarrow> [] | Some seat \<Rightarrow> seat)\<rparr>],
                 ta + Decimal p)).
                sn_event_id s = None \<and> sn_ticket_id s \<noteq> None"
          using Cons.prems acc by auto
        from Cons.IH[OF this, of w1] acc r Inr True Some show ?thesis by simp
      qed
    next
      case False
      with acc r Inr Cons.prems show ?thesis
        by (cases "rollback_reservations rt u w1") (auto split: sum.splits)
    qed
  qed
qed

lemma reserve_requests_built:
  assumes "\<forall>s \<in> set (fst acc). sn_event_id s = None \<and> sn_ticket_id s \<noteq> None"
  shows "\<forall>s \<in> set (fst (fst (snd (reserve_requests now e u reqs acc w)))).
           sn_event_id s = None \<and> sn_ticket_id s \<noteq> None"
  using assms
proof (induction reqs arbitrary: acc w)
  case Nil
  then show ?case by simp
next
  case (Cons req reqs)
  show ?case
  proof (cases "get_available_tickets e (rq_tier req) (rq_quantity req) w")
    case (Inl x)
    with Cons.prems show ?thesis by simp
  next
    case (Inr items)
    show ?thesis
    proof (cases "int (length items) < rq_quantity req")
      case True
      with Inr Cons.prems show ?thesis by simp
    next
      case False
      obtain x acc1 w1 where t: "reserve_tier now e (rq_tier req) u
           (take (nat (rq_quantity req)) items) acc w = (x, acc1, w1)"
        by (cases "reserve_tier now e (rq_tier req) u (take (nat (rq_quantity req)) items) acc w")
          auto
      from reserve_tier_built[OF Cons.prems, of now e "rq_tier req" u
          "take (nat (rq_quantity req)) items" w] t
      have b1: "\<forall>s \<in> set (fst acc1). sn_event_id s = None \<and> sn_ticket_id s \<noteq> None"
        by simp
      show ?thesis
      proof (cases x)
        case None
        from Cons.IH[OF b1, of w1] Inr False t None show ?thesis by simp
      next
        case (Some ex)
        with Inr False t b1 show ?thesis by simp
      qed
    qed
  qed
qed

text \<open>
  Whenever the loops of a request fail after some ticket was reserved, the \<open>except\<close>
  clause raises \<open>KeyError\<close> and the state is the one in which the loops failed: no
  reservation of the request is ever rolled back.
\<close>

lemma reserve_under_lock_never_rolls_back:
  assumes "reserve_requests now e u reqs ([], 0) w = (Some ex, (rt, ta), w1)"
      and "rt \<noteq> []"
  shows "reserve_under_lock stamp new_id now e u reqs w = (Inl (KeyError ''event_id''), w1)"
proof -
  from reserve_requests_built[of "([], 0)" now e u reqs w] assms(1)
  have "\<forall>s \<in> set rt. sn_event_id s = None \<and> sn_ticket_id s \<noteq> None" by simp
  with assms(2) obtain s rest where "rt = s # rest" "sn_event_id s = None"
    by (cases rt) auto
  with assms(1) show ?thesis
    by (simp add: reserve_under_lock_def io_bind_def)
qed

text \<open>
  A booking that \<open>reserve_tickets\<close> writes holds its owner, its event and a list of
  tickets in which every entry has its ticket identifier.
\<close>

lemma reserve_under_lock_booking:
  assumes "fst (reserve_under_lock stamp new_id now e u reqs w) = Inr resp"
  shows "\<exists>bk ts. booking_of (snd (reserve_under_lock stamp new_id now e u reqs w)) new_id = Some bk
           \<and> bk_user_id bk = Some u \<and> bk_event_id bk = Some e
           \<and> bk_status bk = Some ''reserved''
           \<and> bk_reserved_until bk = Some (now + 300000000)
           \<and> bk_tickets bk = Some ts
           \<and> (\<forall>s \<in> set ts. sn_ticket_id s \<noteq> None)"
proof -
  obtain x rt ta w1 where t: "reserve_requests now e u reqs ([], 0) w = (x, (rt, ta), w1)"
    by (cases "reserve_requests now e u reqs ([], 0) w") auto
  from reserve_requests_built[of "([], 0)" now e u reqs w] t
  have built: "\<forall>s \<in> set rt. sn_ticket_id s \<noteq> None" by simp
  show ?thesis
  proof (cases x)
    case None
    obtain r w2 where c: "create_booking stamp new_id now e u rt ta w1 = (r, w2)"
      by (cases "create_booking stamp new_id now e u rt ta w1")
    show ?thesis
    proof (cases r)
      case (Inr resp')
      let ?bk = "\<lparr>bk_booking_id = new_id, bk_user_id = Some u, bk_event_id = Some e,
                  bk_tickets = Some rt, bk_total_amount = Some ta,
                  bk_status = Some ''reserved'',
                  bk_reserved_until = Some (now + 300000000),
                  bk_created_at = Some now, bk_updated_at = Some now,
                  bk_ttl = Some (stamp (now + 300000000) + 3600)\<rparr>"
      let ?w = "w1\<lparr>bookings_table := put_item (bookings_table w1) new_id (as_item ?bk),
                   booking_cache := cache_set now (booking_cache w1) new_id ?bk 300\<rparr>"
      obtain q w3 where s: "send_to_queue BOOKING_QUEUE_URL (Process_reservation new_id u) ?w
                              = (q, w3)"
        by (cases "send_to_queue BOOKING_QUEUE_URL (Process_reservation new_id u) ?w")
      have "bookings_table w3 = bookings_table ?w"
        using send_to_queue_frame[of BOOKING_QUEUE_URL "Process_reservation new_id u" ?w] s
        by simp
      moreover from c s Inr have "w2 = w3"
        by (simp add: create_booking_eq split: sum.splits)
      ultimately have "booking_of w2 new_id = Some (as_item ?bk)"
        by (simp add: booking_of_def put_item_def update_conv')
      with t None c Inr built show ?thesis
        by (simp add: reserve_under_lock_def as_item_def)
    next
      case (Inl ex)
      with t None c assms io_bind_raise_fails[of "rollback_reservations rt u" ex w2 resp]
      show ?thesis by (simp add: reserve_under_lock_def)
    qed
  next
    case (Some ex)
    with t assms io_bind_raise_fails[of "rollback_reservations rt u" ex w1 resp]
    show ?thesis by (simp add: reserve_under_lock_def)
  qed
qed

section \<open>Rollback of a failed reservation\<close>

lemma rollback_write_other_user:
  "ticket_of w k = Some tk \<Longrightarrow> tk_reserved_by tk \<noteq> Some u \<Longrightarrow>
   ticket_of (rollback_write e t u w) k = Some tk"
  by (auto simp: rollback_write_def ticket_of_update split: option.splits)

text \<open>
  The conditional write of the rollback never touches a ticket that another user holds,
  whatever the list it is given.
\<close>

lemma rollback_reservations_other_user:
  "ticket_of w k = Some tk \<Longrightarrow> tk_reserved_by tk \<noteq> Some u \<Longrightarrow>
   ticket_of (snd (rollback_reservations ts u w)) k = Some tk"
proof (induction ts arbitrary: w)
  case Nil
  then show ?case by simp
next
  case (Cons s ts)
  show ?case
  proof (cases "sn_event_id s")
    case None
    with Cons.prems show ?thesis
      by (simp add: rollback_reservations_Cons del: rollback_reservations.simps)
  next
    case (Some e)
    note e = this
    show ?thesis
    proof (cases "sn_ticket_id s")
      case None
      with e Cons.prems show ?thesis
        by (simp add: rollback_reservations_Cons del: rollback_reservations.simps)
    next
      case (Some t)
      have "ticket_of (rollback_write e t u w) k = Some tk"
        using Cons.prems by (rule rollback_write_other_user)
      then have "ticket_of (snd (rollback_reservations ts u (rollback_write e t u w))) k = Some tk"
        using Cons.prems(2) by (rule Cons.IH)
      with e Some show ?thesis
        by (simp add: rollback_reservations_Cons del: rollback_reservations.simps)
    qed
  qed
qed

text \<open>
  An entry of \<open>reserved_tickets\<close> has no key \<open>'event_id'\<close>, so the rollback of a non-empty
  list raises \<open>KeyError\<close> at its first entry and writes nothing.
\<close>

lemma rollback_reservations_KeyError:
  "sn_event_id s = None \<Longrightarrow>
   rollback_reservations (s # rest) u w = (Inl (KeyError ''event_id''), w)"
  by simp

text \<open>
  C2. The spec's example, a request for two vip and three standard tickets where only two
  standard tickets are available: the availability check of the second tier fails after
  both vip tickets were reserved. The request ends in \<open>KeyError\<close>, which the handler
  answers with status 500, both vip tickets stay reserved by the user and no booking is
  written.
\<close>

theorem reserve_tickets_failed_tier_keeps_reservations:
  "fst (reserve_tickets accept_all utc_timestamp ''b1'' 1000 over_request ''alice'' example_world)
     = Inl (KeyError ''event_id'')
   \<and> map_option tk_status
        (ticket_of (snd (reserve_tickets accept_all utc_timestamp ''b1'' 1000 over_request ''alice''
                           example_world)) (''e1'', ''v1'')) = Some (Some ''reserved'')
   \<and> map_option tk_reserved_by
        (ticket_of (snd (reserve_tickets accept_all utc_timestamp ''b1'' 1000 over_request ''alice''
                           example_world)) (''e1'', ''v1'')) = Some (Some ''alice'')
   \<and> map_option tk_status
        (ticket_of (snd (reserve_tickets accept_all utc_timestamp ''b1'' 1000 over_request ''alice''
                           example_world)) (''e1'', ''v2'')) = Some (Some ''reserved'')
   \<and> map_option tk_reserved_by
        (ticket_of (snd (reserve_tickets accept_all utc_timestamp ''b1'' 1000 over_request ''alice''
                           example_world)) (''e1'', ''v2'')) = Some (Some ''alice'')
   \<and> bookings_table (snd (reserve_tickets accept_all utc_timestamp ''b1'' 1000 over_request ''alice''
                             example_world)) = []
   \<and> rs_statusCode (fst (lambda_handler accept_all utc_timestamp ''b1'' 1000
        (api_request ''POST'' ''/booking/reserve'' over_request [] ''alice'') example_world))
     = 500"
  by code_simp

text \<open>
  C3. A lost race: the query returned the vip tickets \<open>v1\<close> and \<open>v2\<close>, and bob reserved
  \<open>v2\<close> before the writes. The write for \<open>v1\<close> succeeds and the one for \<open>v2\<close> fails; the
  rollback is given exactly the entry of \<open>v1\<close>, raises \<open>KeyError\<close> instead of the
  ticket-unavailable error, and \<open>v1\<close> stays reserved by alice.
\<close>

theorem rollback_reservations_lost_race:
  "fst (reserve_tier 1000 ''e1'' ''vip'' ''alice''
          [((''e1'', ''v1''), example_ticket ''vip'' 200),
           ((''e1'', ''v2''), example_ticket ''vip'' 200)] ([], 0) raced_world)
     = Some (KeyError ''event_id'')
   \<and> map sn_ticket_id
        (fst (fst (snd (reserve_tier 1000 ''e1'' ''vip'' ''alice''
          [((''e1'', ''v1''), example_ticket ''vip'' 200),
           ((''e1'', ''v2''), example_ticket ''vip'' 200)] ([], 0) raced_world))))
     = [Some ''v1'']
   \<and> fst (rollback_reservations
        (fst (fst (snd (reserve_tier 1000 ''e1'' ''vip'' ''alice''
          [((''e1'', ''v1''), example_ticket ''vip'' 200),
           ((''e1'', ''v2''), example_ticket ''vip'' 200)] ([], 0) raced_world))))
        ''alice''
        (snd (snd (reserve_tier 1000 ''e1'' ''vip'' ''alice''
          [((''e1'', ''v1''), example_ticket ''vip'' 200),
           ((''e1'', ''v2''), example_ticket ''vip'' 200)] ([], 0) raced_world))))
     = Inl (KeyError ''event_id'')
   \<and> map_option tk_status
        (ticket_of (snd (snd (reserve_tier 1000 ''e1'' ''vip'' ''alice''
          [((''e1'', ''v1''), example_ticket ''vip'' 200),
           ((''e1'', ''v2''), example_ticket ''vip'' 200)] ([], 0) raced_world)))
           (''e1'', ''v1'')) = Some (Some ''reserved'')
   \<and> map_option tk_reserved_by
        (ticket_of (snd (snd (reserve_tier 1000 ''e1'' ''vip'' ''alice''
          [((''e1'', ''v1''), example_ticket ''vip'' 200),
           ((''e1'', ''v2''), example_ticket ''vip'' 200)] ([], 0) raced_world)))
           (''e1'', ''v1'')) = Some (Some ''alice'')"
  by code_simp

section \<open>Classification of errors\<close>

text \<open>
  C8. \<open>confirm_booking\<close> reports a booking that does not exist and a booking of another
  user with the same exception class, which the handler answers with the same status 409
  as a conflict; \<open>get_booking\<close> answers the two cases with 404 and 403. A reservation that
  fails after some ticket was reserved is answered with the generic status 500.
\<close>

theorem confirm_booking_not_found_and_unauthorized_collapse:
  "fst (confirm_booking 2000 (confirm_body ''nope'') ''alice'' booked_world)
     = Inl (BookingError ''Booking not found'')
   \<and> fst (confirm_booking 2000 (confirm_body ''b1'') ''bob'' booked_world)
     = Inl (BookingError ''Unauthorized access to booking'')
   \<and> rs_statusCode (fst (lambda_handler accept_all utc_timestamp ''b2'' 2000
        (api_request ''POST'' ''/booking/confirm'' (confirm_body ''nope'') [] ''alice'')
        booked_world)) = 409
   \<and> rs_statusCode (fst (lambda_handler accept_all utc_timestamp ''b2'' 2000
        (api_request ''POST'' ''/booking/confirm'' (confirm_body ''b1'') [] ''bob'')
        booked_world)) = 409
   \<and> rs_statusCode (fst (lambda_handler accept_all utc_timestamp ''b2'' 2000
        (api_request ''GET'' ''/booking/nope'' (confirm_body []) ''nope'' ''alice'')
        booked_world)) = 404
   \<and> rs_statusCode (fst (lambda_handler accept_all utc_timestamp ''b2'' 2000
        (api_request ''GET'' ''/booking/b1'' (confirm_body []) ''b1'' ''bob'')
        booked_world)) = 403
   \<and> rs_statusCode (fst (lambda_handler accept_all utc_timestamp ''b2'' 2000
        (api_request ''POST'' ''/booking/reserve'' over_request [] ''bob'') example_world))
     = 500"
  by code_simp

section \<open>Quota\<close>

lemma get_user_active_bookings_count_frame:
  "tickets_table (snd (get_user_active_bookings_count now u w)) = tickets_table w
   \<and> bookings_table (snd (get_user_active_bookings_count now u w)) = bookings_table w
   \<and> events_table (snd (get_user_active_bookings_count now u w)) = events_table w
   \<and> booking_cache (snd (get_user_active_bookings_count now u w)) = booking_cache w
   \<and> event_cache (snd (get_user_active_bookings_count now u w)) = event_cache w
   \<and> locks (snd (get_user_active_bookings_count now u w)) = locks w
   \<and> sqs_sent (snd (get_user_active_bookings_count now u w)) = sqs_sent w"
  by (simp add: get_user_active_bookings_count_def Let_def split: option.splits)

text \<open>
  C4. A request that passes validation, and for which the count returned by
  \<open>get_user_active_bookings_count\<close> plus the requested quantities exceeds
  \<open>MAX_TICKETS_PER_USER\<close>, which is 6, raises the \<open>BookingError\<close> of the quota. The tables
  of tickets, bookings and events, the cached bookings and events, the locks and the
  queue are as before the request; only the cached count may have been written.
\<close>

theorem reserve_tickets_quota_exceeded:
  assumes "validate_booking_request body = None"
      and "fst (get_user_active_bookings_count now user_id w)
             + sum_list (map rq_quantity (rb_tickets body)) > MAX_TICKETS_PER_USER"
  shows "MAX_TICKETS_PER_USER = 6
       \<and> fst (reserve_tickets validate_booking_request timestamp new_id now body user_id w)
           = Inl (BookingError ''Maximum 6 tickets per user'')
       \<and> tickets_table (snd (reserve_tickets validate_booking_request timestamp new_id now body user_id w))
           = tickets_table w
       \<and> bookings_table (snd (reserve_tickets validate_booking_request timestamp new_id now body user_id w))
           = bookings_table w
       \<and> events_table (snd (reserve_tickets validate_booking_request timestamp new_id now body user_id w))
           = events_table w
       \<and> booking_cache (snd (reserve_tickets validate_booking_request timestamp new_id now body user_id w))
           = booking_cache w
       \<and> event_cache (snd (reserve_tickets validate_booking_request timestamp new_id now body user_id w))
           = event_cache w
       \<and> locks (snd (reserve_tickets validate_booking_request timestamp new_id now body user_id w))
           = locks w
       \<and> sqs_sent (snd (reserve_tickets validate_booking_request timestamp new_id now body user_id w))
           = sqs_sent w"
proof -
  have r: "reserve_tickets validate_booking_request timestamp new_id now body user_id w =
           (Inl (BookingError ''Maximum 6 tickets per user''),
            snd (get_user_active_bookings_count now user_id w))"
    using assms by (simp add: reserve_tickets_def Let_def case_prod_beta)
  show ?thesis
    using get_user_active_bookings_count_frame[of now user_id w]
    by (simp add: r MAX_TICKETS_PER_USER_def)
qed

theorem reserve_tickets_quota_exceeded_witness:
  "accept_all (reserve_body [\<lparr>rq_tier = ''vip'', rq_quantity = 2\<rparr>]) = None
   \<and> fst (get_user_active_bookings_count 1000 ''alice'' five_bookings_world) = 5
   \<and> sum_list (map rq_quantity (rb_tickets (reserve_body [\<lparr>rq_tier = ''vip'', rq_quantity = 2\<rparr>])))
       = 2
   \<and> fst (reserve_tickets accept_all utc_timestamp ''b1'' 1000
            (reserve_body [\<lparr>rq_tier = ''vip'', rq_quantity = 2\<rparr>]) ''alice'' five_bookings_world)
       = Inl (BookingError ''Maximum 6 tickets per user'')
   \<and> tickets_table (snd (reserve_tickets accept_all utc_timestamp ''b1'' 1000
            (reserve_body [\<lparr>rq_tier = ''vip'', rq_quantity = 2\<rparr>]) ''alice'' five_bookings_world))
       = tickets_table five_bookings_world
   \<and> bookings_table (snd (reserve_tickets accept_all utc_timestamp ''b1'' 1000
            (reserve_body [\<lparr>rq_tier = ''vip'', rq_quantity = 2\<rparr>]) ''alice'' five_bookings_world))
       = bookings_table five_bookings_world"
proof -
  have valid: "accept_all (reserve_body [\<lparr>rq_tier = ''vip'', rq_quantity = 2\<rparr>]) = None"
    by (simp add: accept_all_def)
  have count: "fst (get_user_active_bookings_count 1000 ''alice'' five_bookings_world) = 5"
    by code_simp
  have asked: "sum_list (map rq_quantity
                 (rb_tickets (reserve_body [\<lparr>rq_tier = ''vip'', rq_quantity = 2\<rparr>]))) = 2"
    by (simp add: reserve_body_def)
  have over: "fst (get_user_active_bookings_count 1000 ''alice'' five_bookings_world)
                + sum_list (map rq_quantity
                    (rb_tickets (reserve_body [\<lparr>rq_tier = ''vip'', rq_quantity = 2\<rparr>])))
              > MAX_TICKETS_PER_USER"
    by (simp add: count asked MAX_TICKETS_PER_USER_def)
  from reserve_tickets_quota_exceeded[where validate_booking_request = accept_all
      and body = "reserve_body [\<lparr>rq_tier = ''vip'', rq_quantity = 2\<rparr>]" and now = 1000
      and user_id = "''alice''" and w = five_bookings_world and new_id = "''b1''",
      OF valid over] valid count asked
  show ?thesis by simp
qed

section \<open>Reading a booking and cancelling it\<close>

lemma update_booking_status_eq:
  "fst (update_booking_status now b st w) = Inr ()
   \<and> bookings_table (snd (update_booking_status now b st w))
       = AList.update b
           ((case booking_of w b of None \<Rightarrow> key_only_booking b | Some v \<Rightarrow> v)
              \<lparr>bk_status := Some st, bk_updated_at := Some now\<rparr>)
           (bookings_table w)
   \<and> tickets_table (snd (update_booking_status now b st w)) = tickets_table w
   \<and> events_table (snd (update_booking_status now b st w)) = events_table w
   \<and> event_cache (snd (update_booking_status now b st w)) = event_cache w
   \<and> count_cache (snd (update_booking_status now b st w)) = count_cache w
   \<and> locks (snd (update_booking_status now b st w)) = locks w
   \<and> sqs_fault (snd (update_booking_status now b st w)) = sqs_fault w
   \<and> sqs_sent (snd (update_booking_status now b st w)) = sqs_sent w
   \<and> (booking_cache (snd (update_booking_status now b st w)))(b := None)
       = (booking_cache w)(b := None)"
  by (simp add: update_booking_status_def update_item_def no_condition_def io_bind_def
      get_booking_by_id_def get_item_def update_conv' booking_of_def cache_set_def
      split: option.splits)

lemma get_booking_by_id_frame:
  "tickets_table (snd (get_booking_by_id now b w)) = tickets_table w
   \<and> bookings_table (snd (get_booking_by_id now b w)) = bookings_table w
   \<and> events_table (snd (get_booking_by_id now b w)) = events_table w
   \<and> event_cache (snd (get_booking_by_id now b w)) = event_cache w
   \<and> count_cache (snd (get_booking_by_id now b w)) = count_cache w
   \<and> locks (snd (get_booking_by_id now b w)) = locks w
   \<and> sqs_fault (snd (get_booking_by_id now b w)) = sqs_fault w
   \<and> sqs_sent (snd (get_booking_by_id now b w)) = sqs_sent w"
  by (simp add: get_booking_by_id_def split: option.splits)

text \<open>A second read in the same request returns the booking that the first read returned.\<close>

lemma get_booking_by_id_again:
  "get_booking_by_id now b w = (Inr (Some bk), w1) \<Longrightarrow>
   get_booking_by_id now b w1 = (Inr (Some bk), w1)"
  by (auto simp: get_booking_by_id_def cache_get_def cache_set_def get_item_def seconds_def
      split: option.splits if_splits)

lemma release_ticket_keeps_available:
  "is_available (ticket_of w k) \<Longrightarrow> is_available (ticket_of (release_ticket e t w) k)"
  by (auto simp: release_ticket_eq ticket_of_update is_available_def split: option.splits)

lemma release_ticket_available: "is_available (ticket_of (release_ticket e t w) (e, t))"
  by (simp add: release_ticket_eq ticket_of_update is_available_def)

lemma release_tickets_keeps_available:
  "is_available (ticket_of w k) \<Longrightarrow>
   is_available (ticket_of (snd (release_tickets ev ts w)) k)"
proof (induction ts arbitrary: w)
  case Nil
  then show ?case by simp
next
  case (Cons s ts)
  show ?case
  proof (cases ev)
    case None
    with Cons.prems show ?thesis by simp
  next
    case (Some e)
    note e = this
    show ?thesis
    proof (cases "sn_ticket_id s")
      case None
      with e Cons.prems show ?thesis by simp
    next
      case (Some t)
      have "is_available (ticket_of (release_ticket e t w) k)"
        using Cons.prems by (rule release_ticket_keeps_available)
      then have "is_available (ticket_of (snd (release_tickets ev ts (release_ticket e t w))) k)"
        by (rule Cons.IH)
      with e Some show ?thesis by simp
    qed
  qed
qed

text \<open>The loop writes the tickets table only.\<close>

lemma release_tickets_frame:
  "snd (release_tickets ev ts w)
     = w\<lparr>tickets_table := tickets_table (snd (release_tickets ev ts w))\<rparr>"
proof (induction ts arbitrary: w)
  case Nil
  show ?case by simp
next
  case (Cons s ts)
  show ?case
  proof (cases ev)
    case None
    then show ?thesis by simp
  next
    case (Some e)
    note e = this
    show ?thesis
    proof (cases "sn_ticket_id s")
      case None
      with e show ?thesis by simp
    next
      case (Some t)
      have "snd (release_tickets ev ts (release_ticket e t w))
              = (release_ticket e t w)\<lparr>tickets_table :=
                   tickets_table (snd (release_tickets ev ts (release_ticket e t w)))\<rparr>"
        by (rule Cons.IH)
      then have "snd (release_tickets ev ts (release_ticket e t w))
              = w\<lparr>tickets_table :=
                   tickets_table (snd (release_tickets ev ts (release_ticket e t w)))\<rparr>"
        by (simp add: release_ticket_eq)
      with e Some show ?thesis by simp
    qed
  qed
qed

text \<open>
  With the event identifier and every ticket identifier present, the loop does not raise
  and leaves every ticket of the list available.
\<close>

lemma release_tickets_all:
  assumes "\<forall>s \<in> set ts. sn_ticket_id s \<noteq> None"
  shows "fst (release_tickets (Some e) ts w) = Inr ()
       \<and> (\<forall>s \<in> set ts. is_available
             (ticket_of (snd (release_tickets (Some e) ts w)) (e, the (sn_ticket_id s))))"
  using assms
proof (induction ts arbitrary: w)
  case Nil
  show ?case by simp
next
  case (Cons s ts)
  from Cons.prems obtain t where t: "sn_ticket_id s = Some t" by auto
  from Cons.prems have rest: "\<forall>s \<in> set ts. sn_ticket_id s \<noteq> None" by simp
  note ih = Cons.IH[OF rest, of "release_ticket e t w"]
  have head: "is_available
      (ticket_of (snd (release_tickets (Some e) ts (release_ticket e t w))) (e, t))"
    using release_ticket_available by (rule release_tickets_keeps_available)
  from ih head t show ?case by simp
qed

text \<open>
  The effect of \<open>cancel_booking_internal\<close> on a booking that it loads with its event,
  its owner and its list of tickets, each with its identifier.
\<close>

lemma cancel_booking_internal_effect:
  assumes loaded: "get_booking_by_id now b w = (Inr (Some bk), w1)"
      and tickets: "bk_tickets bk = Some ts"
      and event: "bk_event_id bk = Some e"
      and owner: "bk_user_id bk = Some u"
      and ids: "\<forall>s \<in> set ts. sn_ticket_id s \<noteq> None"
  shows "fst (cancel_booking_internal now b w) = Inr ()
       \<and> (\<forall>s \<in> set ts. is_available
             (ticket_of (snd (cancel_booking_internal now b w)) (e, the (sn_ticket_id s))))
       \<and> bookings_table (snd (cancel_booking_internal now b w))
           = AList.update b
               ((case booking_of w b of None \<Rightarrow> key_only_booking b | Some v \<Rightarrow> v)
                  \<lparr>bk_status := Some ''cancelled'', bk_updated_at := Some now\<rparr>)
               (bookings_table w)
       \<and> booking_cache (snd (cancel_booking_internal now b w)) b = None
       \<and> count_cache (snd (cancel_booking_internal now b w)) u = None
       \<and> sqs_sent (snd (cancel_booking_internal now b w)) = sqs_sent w"
proof -
  have f1: "bookings_table w1 = bookings_table w" "sqs_sent w1 = sqs_sent w"
    using get_booking_by_id_frame[of now b w] loaded by simp_all
  obtain r2 w2 where rel: "release_tickets (Some e) ts w1 = (r2, w2)"
    by (cases "release_tickets (Some e) ts w1")
  have r2: "r2 = Inr ()"
    and av: "\<forall>s \<in> set ts. is_available (ticket_of w2 (e, the (sn_ticket_id s)))"
    using release_tickets_all[OF ids, of e w1] rel by simp_all
  have w2: "w2 = w1\<lparr>tickets_table := tickets_table w2\<rparr>"
    using release_tickets_frame[of "Some e" ts w1] rel by simp
  have f2: "bookings_table w2 = bookings_table w" "sqs_sent w2 = sqs_sent w"
    using f1 by (subst w2, simp)+
  obtain r3 w3 where upd: "update_booking_status now b ''cancelled'' w2 = (r3, w3)"
    by (cases "update_booking_status now b ''cancelled'' w2")
  note u3 = update_booking_status_eq[of now b "''cancelled''" w2]
  have r3: "r3 = Inr ()" using u3 upd by simp
  have res: "cancel_booking_internal now b w
      = (Inr (), w3\<lparr>booking_cache := cache_delete (booking_cache w3) b,
                     count_cache := cache_delete (count_cache w3) u\<rparr>)"
    using loaded tickets event owner rel r2 upd r3
    by (simp add: cancel_booking_internal_def io_bind_def getitem_def)
  have t3: "tickets_table w3 = tickets_table w2" using u3 upd by simp
  have b3: "bookings_table w3 = AList.update b
               ((case booking_of w b of None \<Rightarrow> key_only_booking b | Some v \<Rightarrow> v)
                  \<lparr>bk_status := Some ''cancelled'', bk_updated_at := Some now\<rparr>)
               (bookings_table w)"
    using u3 upd f2 by (simp add: booking_of_def)
  have s3: "sqs_sent w3 = sqs_sent w" using u3 upd f2 by simp
  show ?thesis
    using av t3 b3 s3 by (simp add: res cache_delete_def ticket_of_def)
qed

section \<open>The writes of confirmation and cancellation\<close>

text \<open>
  C7, counterexample. \<open>release_ticket\<close> takes effect on a ticket that bob holds and on a
  ticket that has no stored record; \<open>update_booking_status\<close> sets \<open>processing\<close> on a
  stored booking that is \<open>cancelled\<close>; alice's cancellation of her booking releases its
  ticket although the stored record names bob as the holder; and alice's confirmation,
  which reads her booking from the cache, sets the stored booking to \<open>processing\<close>
  although its stored status is \<open>cancelled\<close>.
\<close>

theorem release_ticket_unconditional_counterexample:
  "map_option tk_reserved_by (ticket_of raced_world (''e1'', ''v2'')) = Some (Some ''bob'')
   \<and> is_available (ticket_of (release_ticket ''e1'' ''v2'' raced_world) (''e1'', ''v2''))
   \<and> ticket_of example_world (''e1'', ''zz'') = None
   \<and> is_available (ticket_of (release_ticket ''e1'' ''zz'' example_world) (''e1'', ''zz''))
   \<and> map_option bk_status (booking_of five_bookings_world ''a6'') = Some (Some ''cancelled'')
   \<and> map_option bk_status
        (booking_of (snd (update_booking_status 1000 ''a6'' ''processing'' five_bookings_world))
           ''a6'') = Some (Some ''processing'')
   \<and> map_option tk_reserved_by (ticket_of taken_world (''e1'', ''v1'')) = Some (Some ''bob'')
   \<and> rs_statusCode (fst (lambda_handler accept_all utc_timestamp ''b2'' 2000
        (api_request ''DELETE'' ''/booking/b1'' (confirm_body []) ''b1'' ''alice'')
        taken_world)) = 200
   \<and> is_available (ticket_of (snd (lambda_handler accept_all utc_timestamp ''b2'' 2000
        (api_request ''DELETE'' ''/booking/b1'' (confirm_body []) ''b1'' ''alice'')
        taken_world)) (''e1'', ''v1''))
   \<and> map_option bk_status (booking_of stale_world ''b1'') = Some (Some ''cancelled'')
   \<and> map_option bk_status (booking_of (snd (lambda_handler accept_all utc_timestamp ''b2'' 2000
        (api_request ''POST'' ''/booking/confirm'' (confirm_body ''b1'') [] ''alice'')
        stale_world)) ''b1'') = Some (Some ''processing'')"
  by code_simp

text \<open>
  C7, amended. The two writes are unconditional. After \<open>release_ticket\<close> the ticket is
  available, with no \<open>reserved_by\<close> and no \<open>reserved_until\<close>, whatever was stored. After
  \<open>update_booking_status\<close>, which does not raise, the stored booking has the given status
  and \<open>updated_at = now\<close>, whatever was stored.
\<close>

theorem release_ticket_and_update_booking_status_unconditional:
  "is_available (ticket_of (release_ticket e t w) (e, t))
   \<and> fst (update_booking_status now b st w) = Inr ()
   \<and> map_option bk_status (booking_of (snd (update_booking_status now b st w)) b)
       = Some (Some st)
   \<and> map_option bk_updated_at (booking_of (snd (update_booking_status now b st w)) b)
       = Some (Some now)"
proof -
  have "is_available (ticket_of (release_ticket e t w) (e, t))"
    by (simp add: release_ticket_eq ticket_of_update is_available_def)
  moreover have "booking_of (snd (update_booking_status now b st w)) b
       = Some ((case booking_of w b of None \<Rightarrow> key_only_booking b | Some v \<Rightarrow> v)
              \<lparr>bk_status := Some st, bk_updated_at := Some now\<rparr>)"
    using update_booking_status_eq[of now b st w] by (simp add: booking_of_def update_conv')
  ultimately show ?thesis
    using update_booking_status_eq[of now b st w] by simp
qed

section \<open>Confirmation of an expired reservation\<close>

text \<open>
  C5, counterexample. In \<open>booked_world\<close> the booking \<open>b1\<close> of alice is \<open>reserved\<close> until
  300001000. At \<open>now = 400000000\<close> a confirmation by bob raises the error of an
  unauthorized access: the booking stays \<open>reserved\<close> and its ticket stays reserved.
\<close>

theorem confirm_booking_expired_counterexample:
  "fst (get_booking_by_id 400000000 ''b1'' booked_world) = Inr (Some b1_booking)
   \<and> bk_status b1_booking = Some ''reserved''
   \<and> bk_reserved_until b1_booking = Some 300001000
   \<and> fst (confirm_booking 400000000 (confirm_body ''b1'') ''bob'' booked_world)
       = Inl (BookingError ''Unauthorized access to booking'')
   \<and> map_option bk_status
        (booking_of (snd (confirm_booking 400000000 (confirm_body ''b1'') ''bob'' booked_world))
           ''b1'') = Some (Some ''reserved'')
   \<and> map_option tk_status
        (ticket_of (snd (confirm_booking 400000000 (confirm_body ''b1'') ''bob'' booked_world))
           (''e1'', ''v1'')) = Some (Some ''reserved'')"
  by code_simp

text \<open>
  C5, amended. A confirmation by the owner of a booking that the request loads (from the
  cache, else from the store) in status \<open>reserved\<close> with \<open>reserved_until\<close> before \<open>now\<close>,
  the booking holding its event and a list of tickets with their identifiers: the
  request raises the error of an expired reservation, every ticket of the booking is
  available afterwards, the stored booking is \<open>cancelled\<close> and not \<open>processing\<close>, its cache
  entry is gone and no message was sent to a queue.
\<close>

theorem confirm_booking_expired:
  assumes body: "rb_booking_id body = Some b" "b \<noteq> []"
      and loaded: "fst (get_booking_by_id now b w) = Inr (Some bk)"
      and owner: "bk_user_id bk = Some user_id"
      and status: "bk_status bk = Some ''reserved''"
      and until: "bk_reserved_until bk = Some reserved_until"
      and expired: "now > reserved_until"
      and tickets: "bk_tickets bk = Some ts"
      and event: "bk_event_id bk = Some e"
      and ids: "\<forall>s \<in> set ts. sn_ticket_id s \<noteq> None"
  shows "fst (confirm_booking now body user_id w)
           = Inl (BookingError ''Reservation has expired'')
       \<and> (\<forall>s \<in> set ts. is_available
             (ticket_of (snd (confirm_booking now body user_id w)) (e, the (sn_ticket_id s))))
       \<and> map_option bk_status (booking_of (snd (confirm_booking now body user_id w)) b)
           = Some (Some ''cancelled'')
       \<and> booking_cache (snd (confirm_booking now body user_id w)) b = None
       \<and> count_cache (snd (confirm_booking now body user_id w)) user_id = None
       \<and> sqs_sent (snd (confirm_booking now body user_id w)) = sqs_sent w"
proof -
  obtain w1 where g: "get_booking_by_id now b w = (Inr (Some bk), w1)"
    using loaded by (cases "get_booking_by_id now b w") simp
  have f1: "bookings_table w1 = bookings_table w" "sqs_sent w1 = sqs_sent w"
    using get_booking_by_id_frame[of now b w] g by simp_all
  note eff = cancel_booking_internal_effect[OF get_booking_by_id_again[OF g] tickets event
      owner ids]
  obtain r2 w2 where c: "cancel_booking_internal now b w1 = (r2, w2)"
    by (cases "cancel_booking_internal now b w1")
  have r2: "r2 = Inr ()" using eff c by simp
  have res: "confirm_booking now body user_id w
               = (Inl (BookingError ''Reservation has expired''), w2)"
    using body g owner status until expired c r2
    by (simp add: confirm_booking_def io_bind_def getitem_def raise_def)
  have "booking_of w2 b
          = Some ((case booking_of w1 b of None \<Rightarrow> key_only_booking b | Some v \<Rightarrow> v)
                    \<lparr>bk_status := Some ''cancelled'', bk_updated_at := Some now\<rparr>)"
    using eff c by (simp add: booking_of_def update_conv')
  then show ?thesis
    using eff c f1 by (simp add: res)
qed

theorem confirm_booking_expired_witness:
  "rb_booking_id (confirm_body ''b1'') = Some ''b1''
   \<and> fst (get_booking_by_id 400000000 ''b1'' booked_world) = Inr (Some b1_booking)
   \<and> bk_user_id b1_booking = Some ''alice''
   \<and> bk_status b1_booking = Some ''reserved''
   \<and> bk_reserved_until b1_booking = Some 300001000
   \<and> fst (confirm_booking 400000000 (confirm_body ''b1'') ''alice'' booked_world)
       = Inl (BookingError ''Reservation has expired'')
   \<and> is_available
        (ticket_of (snd (confirm_booking 400000000 (confirm_body ''b1'') ''alice'' booked_world))
           (''e1'', ''v1''))
   \<and> map_option bk_status
        (booking_of (snd (confirm_booking 400000000 (confirm_body ''b1'') ''alice''
                            booked_world)) ''b1'') = Some (Some ''cancelled'')
   \<and> sqs_sent (snd (confirm_booking 400000000 (confirm_body ''b1'') ''alice'' booked_world))
       = sqs_sent booked_world"
proof -
  have body: "rb_booking_id (confirm_body ''b1'') = Some ''b1''" "''b1'' \<noteq> []"
    by (simp_all add: confirm_body_def)
  have loaded: "fst (get_booking_by_id 400000000 ''b1'' booked_world) = Inr (Some b1_booking)"
    by code_simp
  have fields: "bk_user_id b1_booking = Some ''alice''"
    "bk_status b1_booking = Some ''reserved''"
    "bk_reserved_until b1_booking = Some 300001000"
    "bk_tickets b1_booking = Some [\<lparr>sn_event_id = None, sn_ticket_id = Some ''v1'',
                          sn_tier = Some ''vip'', sn_price = Some 200,
                          sn_seat_number = Some ''A01-01''\<rparr>]"
    "bk_event_id b1_booking = Some ''e1''"
    by (simp_all add: b1_booking_def)
  have expired: "(400000000::int) > 300001000" by simp
  have ids: "\<forall>s \<in> set [\<lparr>sn_event_id = None, sn_ticket_id = Some ''v1'',
                          sn_tier = Some ''vip'', sn_price = Some 200,
                          sn_seat_number = Some ''A01-01''\<rparr>]. sn_ticket_id s \<noteq> None"
    by simp
  from confirm_booking_expired[OF body loaded fields(1) fields(2) fields(3) expired
      fields(4) fields(5) ids] body loaded fields
  show ?thesis by simp
qed

section \<open>Cancellation\<close>

text \<open>
  C6, counterexample. In \<open>booked_world\<close> the booking \<open>b1\<close> of alice is \<open>reserved\<close>, which is
  none of \<open>cancelled\<close>, \<open>expired\<close> and \<open>confirmed\<close>. A cancellation by bob is answered
  with status 403: the ticket of the booking stays reserved, the booking stays
  \<open>reserved\<close> and its cache entry stays.
\<close>

theorem cancel_booking_counterexample:
  "fst (get_booking_by_id 2000 ''b1'' booked_world) = Inr (Some b1_booking)
   \<and> bk_status b1_booking = Some ''reserved''
   \<and> fst (cancel_booking 2000 ''b1'' ''bob'' booked_world)
       = Inr (create_response 403 (Error_body ''Unauthorized access''))
   \<and> map_option tk_status
        (ticket_of (snd (cancel_booking 2000 ''b1'' ''bob'' booked_world)) (''e1'', ''v1''))
       = Some (Some ''reserved'')
   \<and> map_option bk_status
        (booking_of (snd (cancel_booking 2000 ''b1'' ''bob'' booked_world)) ''b1'')
       = Some (Some ''reserved'')
   \<and> map_option fst (booking_cache (snd (cancel_booking 2000 ''b1'' ''bob'' booked_world))
                        ''b1'') = Some b1_booking"
  by code_simp

text \<open>
  The guards and the release, on the booking that the request loads (from the cache, else
  from the store).
\<close>

lemma cancel_booking_loaded:
  assumes loaded: "fst (get_booking_by_id now b w) = Inr (Some bk)"
      and owner: "bk_user_id bk = Some user_id"
      and status: "bk_status bk = Some st"
  shows "(st = ''cancelled'' \<or> st = ''expired'' \<longrightarrow>
            fst (cancel_booking now b user_id w)
              = Inr (create_response 409 (Error_body ''Booking already cancelled''))
            \<and> tickets_table (snd (cancel_booking now b user_id w)) = tickets_table w
            \<and> bookings_table (snd (cancel_booking now b user_id w)) = bookings_table w)
       \<and> (st = ''confirmed'' \<longrightarrow>
            fst (cancel_booking now b user_id w)
              = Inr (create_response 409 (Error_body ''Cannot cancel confirmed booking''))
            \<and> tickets_table (snd (cancel_booking now b user_id w)) = tickets_table w
            \<and> bookings_table (snd (cancel_booking now b user_id w)) = bookings_table w)
       \<and> (st \<noteq> ''cancelled'' \<and> st \<noteq> ''expired'' \<and> st \<noteq> ''confirmed''
            \<and> bk_tickets bk = Some ts \<and> bk_event_id bk = Some e
            \<and> (\<forall>s \<in> set ts. sn_ticket_id s \<noteq> None) \<longrightarrow>
            fst (cancel_booking now b user_id w)
              = Inr (create_response 200 (Message_body ''Booking cancelled successfully''))
            \<and> rs_statusCode (create_response 200
                                (Message_body ''Booking cancelled successfully'')) = 200
            \<and> (\<forall>s \<in> set ts. is_available
                  (ticket_of (snd (cancel_booking now b user_id w))
                     (e, the (sn_ticket_id s))))
            \<and> map_option bk_status (booking_of (snd (cancel_booking now b user_id w)) b)
                = Some (Some ''cancelled'')
            \<and> booking_cache (snd (cancel_booking now b user_id w)) b = None
            \<and> count_cache (snd (cancel_booking now b user_id w)) user_id = None)"
proof -
  obtain w1 where g: "get_booking_by_id now b w = (Inr (Some bk), w1)"
    using loaded by (cases "get_booking_by_id now b w") simp
  have f1: "bookings_table w1 = bookings_table w" "tickets_table w1 = tickets_table w"
    using get_booking_by_id_frame[of now b w] g by simp_all
  have guard1: "st = ''cancelled'' \<or> st = ''expired'' \<Longrightarrow>
      cancel_booking now b user_id w
        = (Inr (create_response 409 (Error_body ''Booking already cancelled'')), w1)"
    using g owner status
    by (auto simp: cancel_booking_def io_bind_def getitem_def return_def)
  have guard2: "st = ''confirmed'' \<Longrightarrow>
      cancel_booking now b user_id w
        = (Inr (create_response 409 (Error_body ''Cannot cancel confirmed booking'')), w1)"
    using g owner status
    by (simp add: cancel_booking_def io_bind_def getitem_def return_def)
  have release: "fst (cancel_booking now b user_id w)
              = Inr (create_response 200 (Message_body ''Booking cancelled successfully''))
            \<and> (\<forall>s \<in> set ts. is_available
                  (ticket_of (snd (cancel_booking now b user_id w))
                     (e, the (sn_ticket_id s))))
            \<and> map_option bk_status (booking_of (snd (cancel_booking now b user_id w)) b)
                = Some (Some ''cancelled'')
            \<and> booking_cache (snd (cancel_booking now b user_id w)) b = None
            \<and> count_cache (snd (cancel_booking now b user_id w)) user_id = None"
    if other: "st \<noteq> ''cancelled''" "st \<noteq> ''expired''" "st \<noteq> ''confirmed''"
      and tickets: "bk_tickets bk = Some ts" and event: "bk_event_id bk = Some e"
      and ids: "\<forall>s \<in> set ts. sn_ticket_id s \<noteq> None"
  proof -
    note eff = cancel_booking_internal_effect[OF get_booking_by_id_again[OF g] tickets event
        owner ids]
    obtain r2 w2 where c: "cancel_booking_internal now b w1 = (r2, w2)"
      by (cases "cancel_booking_internal now b w1")
    have r2: "r2 = Inr ()" using eff c by simp
    have res: "cancel_booking now b user_id w
        = (Inr (create_response 200 (Message_body ''Booking cancelled successfully'')), w2)"
      using g owner status other c r2
      by (simp add: cancel_booking_def io_bind_def getitem_def return_def)
    have "booking_of w2 b
          = Some ((case booking_of w1 b of None \<Rightarrow> key_only_booking b | Some v \<Rightarrow> v)
                    \<lparr>bk_status := Some ''cancelled'', bk_updated_at := Some now\<rparr>)"
      using eff c by (simp add: booking_of_def update_conv')
    then show ?thesis using eff c by (simp add: res)
  qed
  show ?thesis
    using guard1 guard2 release f1 by (auto simp: create_response_def)
qed

text \<open>
  A request loads the stored booking, or a cached copy with its owner, status, event and
  tickets, when the cache agrees with the store.
\<close>

lemma get_booking_by_id_agrees:
  assumes stored: "booking_of w b = Some s"
      and status: "bk_status s = Some st"
      and cache: "cache_agrees now w b s"
  shows "\<exists>c. fst (get_booking_by_id now b w) = Inr (Some c) \<and> same_booking c s"
proof (cases "cache_get now (booking_cache w) b")
  case None
  with stored status have "fst (get_booking_by_id now b w) = Inr (Some s)"
    by (simp add: get_booking_by_id_def get_item_def booking_of_def)
  then show ?thesis by (auto simp: same_booking_def)
next
  case (Some c)
  with cache have "same_booking c s" by (simp add: cache_agrees_def)
  moreover from Some have "fst (get_booking_by_id now b w) = Inr (Some c)"
    by (simp add: get_booking_by_id_def)
  ultimately show ?thesis by blast
qed

text \<open>
  C6, amended. A cancellation by the owner of a stored booking, when the cache holds no
  copy of the booking or a copy with the owner, status, event and tickets of the stored
  booking. When the stored status is \<open>cancelled\<close>, \<open>expired\<close> or \<open>confirmed\<close> the answer has
  status 409 and neither the tickets nor the bookings table is written. Otherwise, the
  booking holding its event and a list of tickets with their identifiers, the answer has
  status 200, every ticket of the booking is available afterwards whatever its stored
  record was, the stored booking is \<open>cancelled\<close>, and the cache entries of the booking and
  of the owner's count are gone.
\<close>

theorem cancel_booking_guard_and_release:
  assumes stored: "booking_of w b = Some bk"
      and cache: "cache_agrees now w b bk"
      and owner: "bk_user_id bk = Some user_id"
      and status: "bk_status bk = Some st"
  shows "(st = ''cancelled'' \<or> st = ''expired'' \<longrightarrow>
            fst (cancel_booking now b user_id w)
              = Inr (create_response 409 (Error_body ''Booking already cancelled''))
            \<and> tickets_table (snd (cancel_booking now b user_id w)) = tickets_table w
            \<and> bookings_table (snd (cancel_booking now b user_id w)) = bookings_table w)
       \<and> (st = ''confirmed'' \<longrightarrow>
            fst (cancel_booking now b user_id w)
              = Inr (create_response 409 (Error_body ''Cannot cancel confirmed booking''))
            \<and> tickets_table (snd (cancel_booking now b user_id w)) = tickets_table w
            \<and> bookings_table (snd (cancel_booking now b user_id w)) = bookings_table w)
       \<and> (st \<noteq> ''cancelled'' \<and> st \<noteq> ''expired'' \<and> st \<noteq> ''confirmed''
            \<and> bk_tickets bk = Some ts \<and> bk_event_id bk = Some e
            \<and> (\<forall>s \<in> set ts. sn_ticket_id s \<noteq> None) \<longrightarrow>
            fst (cancel_booking now b user_id w)
              = Inr (create_response 200 (Message_body ''Booking cancelled successfully''))
            \<and> rs_statusCode (create_response 200
                                (Message_body ''Booking cancelled successfully'')) = 200
            \<and> (\<forall>s \<in> set ts. is_available
                  (ticket_of (snd (cancel_booking now b user_id w))
                     (e, the (sn_ticket_id s))))
            \<and> map_option bk_status (booking_of (snd (cancel_booking now b user_id w)) b)
                = Some (Some ''cancelled'')
            \<and> booking_cache (snd (cancel_booking now b user_id w)) b = None
            \<and> count_cache (snd (cancel_booking now b user_id w)) user_id = None)"
proof -
  from get_booking_by_id_agrees[OF stored status cache]
  obtain c where loaded: "fst (get_booking_by_id now b w) = Inr (Some c)"
    and same: "same_booking c bk"
    by blast
  from same owner status have c: "bk_user_id c = Some user_id" "bk_status c = Some st"
    by (simp_all add: same_booking_def)
  from same have fields: "bk_tickets c = bk_tickets bk" "bk_event_id c = bk_event_id bk"
    by (simp_all add: same_booking_def)
  from cancel_booking_loaded[OF loaded c, of ts e] show ?thesis
    by (simp only: fields)
qed

theorem cancel_booking_guard_and_release_witness:
  "booking_of five_bookings_world ''a6'' = Some (held_booking ''a6'' ''cancelled'')
   \<and> cache_get 2000 (booking_cache five_bookings_world) ''a6'' = None
   \<and> fst (cancel_booking 2000 ''a6'' ''alice'' five_bookings_world)
       = Inr (create_response 409 (Error_body ''Booking already cancelled''))
   \<and> tickets_table (snd (cancel_booking 2000 ''a6'' ''alice'' five_bookings_world))
       = tickets_table five_bookings_world
   \<and> booking_of five_bookings_world ''a3'' = Some (held_booking ''a3'' ''confirmed'')
   \<and> fst (cancel_booking 2000 ''a3'' ''alice'' five_bookings_world)
       = Inr (create_response 409 (Error_body ''Cannot cancel confirmed booking''))
   \<and> tickets_table (snd (cancel_booking 2000 ''a3'' ''alice'' five_bookings_world))
       = tickets_table five_bookings_world
   \<and> booking_of booked_world ''b1'' = Some b1_booking
   \<and> cache_get 2000 (booking_cache booked_world) ''b1'' = Some b1_booking
   \<and> fst (cancel_booking 2000 ''b1'' ''alice'' booked_world)
       = Inr (create_response 200 (Message_body ''Booking cancelled successfully''))
   \<and> is_available (ticket_of (snd (cancel_booking 2000 ''b1'' ''alice'' booked_world))
                      (''e1'', ''v1''))
   \<and> map_option bk_status (booking_of (snd (cancel_booking 2000 ''b1'' ''alice'' booked_world))
                              ''b1'') = Some (Some ''cancelled'')
   \<and> booking_cache (snd (cancel_booking 2000 ''b1'' ''alice'' booked_world)) ''b1'' = None
   \<and> count_cache (snd (cancel_booking 2000 ''b1'' ''alice'' booked_world)) ''alice'' = None
   \<and> booking_of uncached_world ''b1'' = Some b1_booking
   \<and> cache_get 2000 (booking_cache uncached_world) ''b1'' = None
   \<and> fst (cancel_booking 2000 ''b1'' ''alice'' uncached_world)
       = Inr (create_response 200 (Message_body ''Booking cancelled successfully''))
   \<and> is_available (ticket_of (snd (cancel_booking 2000 ''b1'' ''alice'' uncached_world))
                      (''e1'', ''v1''))"
proof -
  have s6: "booking_of five_bookings_world ''a6'' = Some (held_booking ''a6'' ''cancelled'')"
    by code_simp
  have s3: "booking_of five_bookings_world ''a3'' = Some (held_booking ''a3'' ''confirmed'')"
    by code_simp
  have s1: "booking_of booked_world ''b1'' = Some b1_booking"
    by code_simp
  have s0: "booking_of uncached_world ''b1'' = Some b1_booking"
    by code_simp
  have h6: "cache_get 2000 (booking_cache five_bookings_world) ''a6'' = None"
    by code_simp
  have h3: "cache_get 2000 (booking_cache five_bookings_world) ''a3'' = None"
    by code_simp
  have h1: "cache_get 2000 (booking_cache booked_world) ''b1'' = Some b1_booking"
    by code_simp
  have h0: "cache_get 2000 (booking_cache uncached_world) ''b1'' = None"
    by code_simp
  have a6: "cache_agrees 2000 five_bookings_world ''a6'' (held_booking ''a6'' ''cancelled'')"
    by (simp add: cache_agrees_def h6)
  have a3: "cache_agrees 2000 five_bookings_world ''a3'' (held_booking ''a3'' ''confirmed'')"
    by (simp add: cache_agrees_def h3)
  have a1: "cache_agrees 2000 booked_world ''b1'' b1_booking"
    by (simp add: cache_agrees_def h1 same_booking_def)
  have a0: "cache_agrees 2000 uncached_world ''b1'' b1_booking"
    by (simp add: cache_agrees_def h0)
  have held: "bk_user_id (held_booking i st) = Some ''alice''"
    "bk_status (held_booking i st) = Some st" for i st
    by (simp_all add: held_booking_def)
  have fields: "bk_user_id b1_booking = Some ''alice''"
    "bk_status b1_booking = Some ''reserved''"
    "bk_tickets b1_booking = Some [\<lparr>sn_event_id = None, sn_ticket_id = Some ''v1'',
                          sn_tier = Some ''vip'', sn_price = Some 200,
                          sn_seat_number = Some ''A01-01''\<rparr>]"
    "bk_event_id b1_booking = Some ''e1''"
    by (simp_all add: b1_booking_def)
  note c6 = cancel_booking_guard_and_release[OF s6 a6 held(1) held(2)]
  note c3 = cancel_booking_guard_and_release[OF s3 a3 held(1) held(2)]
  note c1 = cancel_booking_guard_and_release[OF s1 a1 fields(1) fields(2),
      where ts = "[\<lparr>sn_event_id = None, sn_ticket_id = Some ''v1'',
                          sn_tier = Some ''vip'', sn_price = Some 200,
                          sn_seat_number = Some ''A01-01''\<rparr>]" and e = "''e1''"]
  note c0 = cancel_booking_guard_and_release[OF s0 a0 fields(1) fields(2),
      where ts = "[\<lparr>sn_event_id = None, sn_ticket_id = Some ''v1'',
                          sn_tier = Some ''vip'', sn_price = Some 200,
                          sn_seat_number = Some ''A01-01''\<rparr>]" and e = "''e1''"]
  from c6 c3 c1 c0 s6 s3 s1 s0 h6 h1 h0 fields show ?thesis by simp
qed

text \<open>
  The guards read the status in the copy that the cache holds. In \<open>paid_world\<close> the
  stored booking of alice is \<open>confirmed\<close> and in \<open>stale_world\<close> it is \<open>cancelled\<close>, while
  the cache holds the copy written at the reservation: her cancellation passes the
  guards, releases the ticket and is answered with status 200.
\<close>

lemma cancel_booking_stale_cache:
  "map_option bk_status (booking_of paid_world ''b1'') = Some (Some ''confirmed'')
   \<and> map_option bk_status (cache_get 2000 (booking_cache paid_world) ''b1'')
       = Some (Some ''reserved'')
   \<and> map_option tk_status (ticket_of paid_world (''e1'', ''v1'')) = Some (Some ''reserved'')
   \<and> rs_statusCode (fst (lambda_handler accept_all utc_timestamp ''b2'' 2000
        (api_request ''DELETE'' ''/booking/b1'' (confirm_body []) ''b1'' ''alice'')
        paid_world)) = 200
   \<and> is_available (ticket_of (snd (lambda_handler accept_all utc_timestamp ''b2'' 2000
        (api_request ''DELETE'' ''/booking/b1'' (confirm_body []) ''b1'' ''alice'')
        paid_world)) (''e1'', ''v1''))
   \<and> map_option bk_status (booking_of (snd (lambda_handler accept_all utc_timestamp ''b2'' 2000
        (api_request ''DELETE'' ''/booking/b1'' (confirm_body []) ''b1'' ''alice'')
        paid_world)) ''b1'') = Some (Some ''cancelled'')
   \<and> map_option bk_status (booking_of stale_world ''b1'') = Some (Some ''cancelled'')
   \<and> map_option tk_status (ticket_of stale_world (''e1'', ''v1'')) = Some (Some ''reserved'')
   \<and> rs_statusCode (fst (lambda_handler accept_all utc_timestamp ''b2'' 2000
        (api_request ''DELETE'' ''/booking/b1'' (confirm_body []) ''b1'' ''alice'')
        stale_world)) = 200
   \<and> is_available (ticket_of (snd (lambda_handler accept_all utc_timestamp ''b2'' 2000
        (api_request ''DELETE'' ''/booking/b1'' (confirm_body []) ''b1'' ''alice'')
        stale_world)) (''e1'', ''v1''))"
  by code_simp

section \<open>Reading a booking after its cancellation\<close>

lemma cancel_booking_internal_stored:
  assumes found: "fst (get_booking_by_id now b w) = Inr (Some bk)"
      and completed: "cancel_booking_internal now b w = (Inr (), w')"
  shows "booking_of w' b
           = Some ((case booking_of w b of None \<Rightarrow> key_only_booking b | Some v \<Rightarrow> v)
                     \<lparr>bk_status := Some ''cancelled'', bk_updated_at := Some now\<rparr>)
       \<and> booking_cache w' b = None"
proof -
  obtain w1 where g: "get_booking_by_id now b w = (Inr (Some bk), w1)"
    using found by (cases "get_booking_by_id now b w") simp
  have f1: "bookings_table w1 = bookings_table w"
    using get_booking_by_id_frame[of now b w] g by simp
  from g completed obtain ts where ts: "bk_tickets bk = Some ts"
    by (cases "bk_tickets bk") (simp_all add: cancel_booking_internal_def io_bind_def getitem_def)
  obtain r2 w2 where rel: "release_tickets (bk_event_id bk) ts w1 = (r2, w2)"
    by (cases "release_tickets (bk_event_id bk) ts w1")
  from g ts rel completed have r2: "r2 = Inr ()"
    by (cases r2) (simp_all add: cancel_booking_internal_def io_bind_def getitem_def)
  have w2: "w2 = w1\<lparr>tickets_table := tickets_table w2\<rparr>"
    using release_tickets_frame[of "bk_event_id bk" ts w1] rel by simp
  have f2: "bookings_table w2 = bookings_table w"
    using f1 by (subst w2) simp
  obtain r3 w3 where upd: "update_booking_status now b ''cancelled'' w2 = (r3, w3)"
    by (cases "update_booking_status now b ''cancelled'' w2")
  note u3 = update_booking_status_eq[of now b "''cancelled''" w2]
  have r3: "r3 = Inr ()" using u3 upd by simp
  from g ts rel r2 upd r3 completed obtain u where u: "bk_user_id bk = Some u"
    by (cases "bk_user_id bk") (simp_all add: cancel_booking_internal_def io_bind_def getitem_def)
  have w': "w' = w3\<lparr>booking_cache := cache_delete (booking_cache w3) b,
                     count_cache := cache_delete (count_cache w3) u\<rparr>"
    using g ts rel r2 upd r3 u completed
    by (simp add: cancel_booking_internal_def io_bind_def getitem_def)
  have "bookings_table w3 = AList.update b
               ((case booking_of w b of None \<Rightarrow> key_only_booking b | Some v \<Rightarrow> v)
                  \<lparr>bk_status := Some ''cancelled'', bk_updated_at := Some now\<rparr>)
               (bookings_table w)"
    using u3 upd f2 by (simp add: booking_of_def)
  then show ?thesis
    by (simp add: w' booking_of_def update_conv' cache_delete_def)
qed

text \<open>
  C9. After \<open>cancel_booking_internal\<close> has found the booking and completed, whatever the
  cache held before (the booking, a stale copy of it, or nothing), a read at any later
  instant misses the cache, returns the stored record with status \<open>cancelled\<close> and leaves
  the state as it is, so that a second read returns the same. The record returned is the
  one stored before the cancellation with its status and \<open>updated_at\<close> set: it depends on
  the store and on the instant of the cancellation, and not on the cache.
\<close>

theorem get_booking_by_id_after_cancel:
  assumes found: "fst (get_booking_by_id now b w) = Inr (Some bk)"
      and completed: "cancel_booking_internal now b w = (Inr (), w')"
  shows "get_booking_by_id now' b w'
           = (Inr (Some ((case booking_of w b of None \<Rightarrow> key_only_booking b | Some v \<Rightarrow> v)
                           \<lparr>bk_status := Some ''cancelled'', bk_updated_at := Some now\<rparr>)), w')
       \<and> cache_get now' (booking_cache w') b = None
       \<and> bk_status ((case booking_of w b of None \<Rightarrow> key_only_booking b | Some v \<Rightarrow> v)
                       \<lparr>bk_status := Some ''cancelled'', bk_updated_at := Some now\<rparr>)
           = Some ''cancelled''"
  using cancel_booking_internal_stored[OF found completed]
  by (simp add: get_booking_by_id_def cache_get_def get_item_def booking_of_def)

theorem get_booking_by_id_after_cancel_witness:
  "booking_of booked_world ''b1'' = Some b1_booking
   \<and> cache_get 2000 (booking_cache booked_world) ''b1'' = Some b1_booking
   \<and> fst (cancel_booking_internal 2000 ''b1'' booked_world) = Inr ()
   \<and> fst (get_booking_by_id 2500 ''b1'' (snd (cancel_booking_internal 2000 ''b1'' booked_world)))
       = Inr (Some (b1_booking\<lparr>bk_status := Some ''cancelled'', bk_updated_at := Some 2000\<rparr>))
   \<and> booking_of uncached_world ''b1'' = Some b1_booking
   \<and> cache_get 2000 (booking_cache uncached_world) ''b1'' = None
   \<and> fst (cancel_booking_internal 2000 ''b1'' uncached_world) = Inr ()
   \<and> fst (get_booking_by_id 2500 ''b1'' (snd (cancel_booking_internal 2000 ''b1'' uncached_world)))
       = Inr (Some (b1_booking\<lparr>bk_status := Some ''cancelled'', bk_updated_at := Some 2000\<rparr>))"
proof -
  have s1: "booking_of booked_world ''b1'' = Some b1_booking" by code_simp
  have h1: "cache_get 2000 (booking_cache booked_world) ''b1'' = Some b1_booking" by code_simp
  have g1: "fst (get_booking_by_id 2000 ''b1'' booked_world) = Inr (Some b1_booking)"
    by code_simp
  have c1: "fst (cancel_booking_internal 2000 ''b1'' booked_world) = Inr ()" by code_simp
  have s2: "booking_of uncached_world ''b1'' = Some b1_booking" by code_simp
  have h2: "cache_get 2000 (booking_cache uncached_world) ''b1'' = None" by code_simp
  have g2: "fst (get_booking_by_id 2000 ''b1'' uncached_world) = Inr (Some b1_booking)"
    by code_simp
  have c2: "fst (cancel_booking_internal 2000 ''b1'' uncached_world) = Inr ()" by code_simp
  have p1: "cancel_booking_internal 2000 ''b1'' booked_world
              = (Inr (), snd (cancel_booking_internal 2000 ''b1'' booked_world))"
    using c1 by (cases "cancel_booking_internal 2000 ''b1'' booked_world") simp
  have p2: "cancel_booking_internal 2000 ''b1'' uncached_world
              = (Inr (), snd (cancel_booking_internal 2000 ''b1'' uncached_world))"
    using c2 by (cases "cancel_booking_internal 2000 ''b1'' uncached_world") simp
  from get_booking_by_id_after_cancel[OF g1 p1, of 2500]
    get_booking_by_id_after_cancel[OF g2 p2, of 2500] s1 h1 c1 s2 h2 c2
  show ?thesis by simp
qed

section \<open>A failure of the queue service\<close>

lemma queue_blindD:
  "queue_blind f \<Longrightarrow> queue_rel code sent wa wb \<Longrightarrow>
   fst (f wa) = fst (f wb) \<and> queue_rel code sent (snd (f wa)) (snd (f wb))"
  by (simp add: queue_blind_def)

lemma queue_blind_io_bind:
  assumes "queue_blind m" and "\<And>x. queue_blind (f x)"
  shows "queue_blind (io_bind m f)"
  unfolding queue_blind_def
proof (intro allI impI)
  fix code sent wa wb
  assume rel: "queue_rel code sent wa wb"
  obtain ra wa1 where a: "m wa = (ra, wa1)" by (cases "m wa")
  obtain rb wb1 where b: "m wb = (rb, wb1)" by (cases "m wb")
  from queue_blindD[OF assms(1) rel] a b have r: "ra = rb" and rel1: "queue_rel code sent wa1 wb1"
    by simp_all
  show "fst (io_bind m f wa) = fst (io_bind m f wb)
        \<and> queue_rel code sent (snd (io_bind m f wa)) (snd (io_bind m f wb))"
  proof (cases rb)
    case (Inl e)
    with a b r rel1 show ?thesis by (auto simp: io_bind_def)
  next
    case (Inr x)
    from assms(2)[of x] rel1 have "fst (f x wa1) = fst (f x wb1)
        \<and> queue_rel code sent (snd (f x wa1)) (snd (f x wb1))"
      by (rule queue_blindD)
    with a b r Inr show ?thesis by (auto simp: io_bind_def)
  qed
qed

lemma queue_blind_return [simp]: "queue_blind (return x)"
  by (simp add: queue_blind_def return_def)

lemma queue_blind_raise [simp]: "queue_blind (raise e)"
  by (simp add: queue_blind_def raise_def)

lemma queue_blind_getitem [simp]: "queue_blind (getitem x k)"
  by (simp add: queue_blind_def getitem_def split: option.splits)

lemma queue_blind_get_booking_by_id [simp]: "queue_blind (get_booking_by_id now b)"
  by (auto simp: queue_blind_def queue_rel_def get_booking_by_id_def split: option.splits)

lemma queue_blind_update_booking_status [simp]:
  "queue_blind (update_booking_status now b st)"
  by (auto simp: queue_blind_def queue_rel_def update_booking_status_def update_item_def
      no_condition_def io_bind_def get_booking_by_id_def get_item_def update_conv'
      split: option.splits)

lemma queue_blind_reserve_ticket_in_db [simp]:
  "queue_blind (reserve_ticket_in_db now e t u)"
  by (auto simp: queue_blind_def queue_rel_def reserve_ticket_in_db_eq ticket_of_def
      split: option.splits)

lemma queue_blind_release_ticket:
  "queue_rel code sent wa wb \<Longrightarrow> queue_rel code sent (release_ticket e t wa) (release_ticket e t wb)"
  by (simp add: queue_rel_def release_ticket_eq ticket_of_def)

lemma queue_blind_rollback_write:
  "queue_rel code sent wa wb \<Longrightarrow> queue_rel code sent (rollback_write e t u wa) (rollback_write e t u wb)"
  by (simp add: queue_rel_def rollback_write_def ticket_of_def split: option.splits)

lemma rollback_reservations_queue_rel:
  "queue_rel code sent wa wb \<Longrightarrow>
   fst (rollback_reservations ts u wa) = fst (rollback_reservations ts u wb)
   \<and> queue_rel code sent (snd (rollback_reservations ts u wa))
       (snd (rollback_reservations ts u wb))"
proof (induction ts arbitrary: wa wb)
  case Nil
  then show ?case by simp
next
  case (Cons s ts)
  show ?case
  proof (cases "sn_event_id s")
    case None
    with Cons.prems show ?thesis by simp
  next
    case (Some e)
    note e = this
    show ?thesis
    proof (cases "sn_ticket_id s")
      case None
      with e Cons.prems show ?thesis by simp
    next
      case (Some t)
      from Cons.prems have "queue_rel code sent (rollback_write e t u wa) (rollback_write e t u wb)"
        by (rule queue_blind_rollback_write)
      then have "fst (rollback_reservations ts u (rollback_write e t u wa))
                   = fst (rollback_reservations ts u (rollback_write e t u wb))
               \<and> queue_rel code sent (snd (rollback_reservations ts u (rollback_write e t u wa)))
                   (snd (rollback_reservations ts u (rollback_write e t u wb)))"
        by (rule Cons.IH)
      with e Some show ?thesis
        by (simp add: rollback_reservations_Cons del: rollback_reservations.simps)
    qed
  qed
qed

lemma queue_blind_rollback_reservations [simp]: "queue_blind (rollback_reservations ts u)"
  using rollback_reservations_queue_rel by (simp add: queue_blind_def)

lemma release_tickets_queue_rel:
  "queue_rel code sent wa wb \<Longrightarrow>
   fst (release_tickets ev ts wa) = fst (release_tickets ev ts wb)
   \<and> queue_rel code sent (snd (release_tickets ev ts wa)) (snd (release_tickets ev ts wb))"
proof (induction ts arbitrary: wa wb)
  case Nil
  then show ?case by simp
next
  case (Cons s ts)
  show ?case
  proof (cases ev)
    case None
    with Cons.prems show ?thesis by simp
  next
    case (Some e)
    note e = this
    show ?thesis
    proof (cases "sn_ticket_id s")
      case None
      with e Cons.prems show ?thesis by simp
    next
      case (Some t)
      from Cons.prems have "queue_rel code sent (release_ticket e t wa) (release_ticket e t wb)"
        by (rule queue_blind_release_ticket)
      then have "fst (release_tickets ev ts (release_ticket e t wa))
                   = fst (release_tickets ev ts (release_ticket e t wb))
               \<and> queue_rel code sent (snd (release_tickets ev ts (release_ticket e t wa)))
                   (snd (release_tickets ev ts (release_ticket e t wb)))"
        by (rule Cons.IH)
      with e Some show ?thesis by simp
    qed
  qed
qed

lemma queue_blind_release_tickets [simp]: "queue_blind (release_tickets ev ts)"
  using release_tickets_queue_rel by (simp add: queue_blind_def)

lemma queue_blind_send_to_queue [simp]: "queue_blind (send_to_queue q m)"
  by (simp add: queue_blind_def queue_rel_def send_to_queue_def sqs_send_message_def
      split: sum.splits)

lemma queue_blind_cancel_tail:
  "queue_blind (\<lambda>w. io_bind (getitem owner ''user_id'')
                       (\<lambda>owner w2. (Inr (), w2\<lparr>count_cache := cache_delete (count_cache w2) owner\<rparr>))
                       (w\<lparr>booking_cache := cache_delete (booking_cache w) b\<rparr>))"
  by (simp add: queue_blind_def queue_rel_def io_bind_def getitem_def split: option.splits)

lemma queue_blind_cancel_booking_internal [simp]:
  "queue_blind (cancel_booking_internal now b)"
  unfolding cancel_booking_internal_def
  apply (rule queue_blind_io_bind)
   apply simp
  apply (simp split: option.splits)
  apply (intro allI impI)
  apply (rule queue_blind_io_bind)
   apply simp
  apply (rule queue_blind_io_bind)
   apply simp
  apply (rule queue_blind_io_bind)
   apply simp
  apply (rule queue_blind_cancel_tail)
  done

lemma queue_blind_confirm_booking: "queue_blind (confirm_booking now body u)"
  unfolding confirm_booking_def Let_def
  apply (simp split: option.splits)
  apply (intro allI impI conjI)
  apply (rule queue_blind_io_bind)
   apply simp
  apply (simp split: option.splits)
  apply (intro allI impI)
  apply (rule queue_blind_io_bind)
   apply simp
  apply (simp split: if_splits)
  apply (intro allI impI conjI)
  apply (rule queue_blind_io_bind)
   apply simp
  apply (simp split: if_splits)
  apply (intro allI impI conjI)
  apply (rule queue_blind_io_bind)
   apply simp
  apply (simp split: if_splits)
  apply (intro allI impI conjI)
   apply (rule queue_blind_io_bind)
    apply simp
   apply simp
  apply (rule queue_blind_io_bind)
   apply simp
  apply (rule queue_blind_io_bind)
   apply simp
  apply (rule queue_blind_io_bind)
   apply simp
  apply simp
  done

lemma get_available_tickets_queue_rel:
  "queue_rel code sent wa wb \<Longrightarrow> get_available_tickets e tier q wa = get_available_tickets e tier q wb"
  by (simp add: queue_rel_def get_available_tickets_def)

lemma reserve_tier_queue_rel:
  "queue_rel code sent wa wb \<Longrightarrow>
   fst (reserve_tier now e tier u items acc wa) = fst (reserve_tier now e tier u items acc wb)
   \<and> fst (snd (reserve_tier now e tier u items acc wa))
       = fst (snd (reserve_tier now e tier u items acc wb))
   \<and> queue_rel code sent (snd (snd (reserve_tier now e tier u items acc wa)))
       (snd (snd (reserve_tier now e tier u items acc wb)))"
proof (induction items arbitrary: acc wa wb)
  case Nil
  then show ?case by simp
next
  case (Cons item items)
  obtain rt ta where acc: "acc = (rt, ta)" by (cases acc)
  obtain ra wa1 where a: "reserve_ticket_in_db now e (snd (fst item)) u wa = (ra, wa1)"
    by (cases "reserve_ticket_in_db now e (snd (fst item)) u wa")
  obtain rb wb1 where b: "reserve_ticket_in_db now e (snd (fst item)) u wb = (rb, wb1)"
    by (cases "reserve_ticket_in_db now e (snd (fst item)) u wb")
  from queue_blindD[OF queue_blind_reserve_ticket_in_db Cons.prems, of now e "snd (fst item)" u]
    a b have r: "ra = rb" and rel1: "queue_rel code sent wa1 wb1" by simp_all
  show ?case
  proof (cases rb)
    case (Inl x)
    with acc a b r rel1 show ?thesis by simp
  next
    case (Inr ok)
    show ?thesis
    proof (cases ok)
      case True
      show ?thesis
      proof (cases "tk_price (snd item)")
        case None
        with acc a b r rel1 Inr True show ?thesis by simp
      next
        case (Some p)
        note ih = Cons.IH[OF rel1]
        with acc a b r Inr True Some show ?thesis by simp
      qed
    next
      case False
      obtain xa wa2 where ra2: "rollback_reservations rt u wa1 = (xa, wa2)"
        by (cases "rollback_reservations rt u wa1")
      obtain xb wb2 where rb2: "rollback_reservations rt u wb1 = (xb, wb2)"
        by (cases "rollback_reservations rt u wb1")
      from rollback_reservations_queue_rel[OF rel1, of rt u] ra2 rb2
      have x: "xa = xb" and rel2: "queue_rel code sent wa2 wb2" by simp_all
      with acc a b r Inr False ra2 rb2 show ?thesis
        by (cases xb) simp_all
    qed
  qed
qed

lemma reserve_requests_queue_rel:
  "queue_rel code sent wa wb \<Longrightarrow>
   fst (reserve_requests now e u reqs acc wa) = fst (reserve_requests now e u reqs acc wb)
   \<and> fst (snd (reserve_requests now e u reqs acc wa))
       = fst (snd (reserve_requests now e u reqs acc wb))
   \<and> queue_rel code sent (snd (snd (reserve_requests now e u reqs acc wa)))
       (snd (snd (reserve_requests now e u reqs acc wb)))"
proof (induction reqs arbitrary: acc wa wb)
  case Nil
  then show ?case by simp
next
  case (Cons req reqs)
  note av = get_available_tickets_queue_rel[OF Cons.prems, of e "rq_tier req" "rq_quantity req"]
  show ?case
  proof (cases "get_available_tickets e (rq_tier req) (rq_quantity req) wb")
    case (Inl x)
    with av Cons.prems show ?thesis by simp
  next
    case (Inr items)
    show ?thesis
    proof (cases "int (length items) < rq_quantity req")
      case True
      with av Inr Cons.prems show ?thesis by simp
    next
      case False
      obtain xa acca wa1 where a: "reserve_tier now e (rq_tier req) u
           (take (nat (rq_quantity req)) items) acc wa = (xa, acca, wa1)"
        by (cases "reserve_tier now e (rq_tier req) u (take (nat (rq_quantity req)) items) acc wa")
          auto
      obtain xb accb wb1 where b: "reserve_tier now e (rq_tier req) u
           (take (nat (rq_quantity req)) items) acc wb = (xb, accb, wb1)"
        by (cases "reserve_tier now e (rq_tier req) u (take (nat (rq_quantity req)) items) acc wb")
          auto
      from reserve_tier_queue_rel[OF Cons.prems, of now e "rq_tier req" u
          "take (nat (rq_quantity req)) items" acc] a b
      have x: "xa = xb" and ac: "acca = accb" and rel1: "queue_rel code sent wa1 wb1"
        by simp_all
      show ?thesis
      proof (cases xb)
        case None
        note ih = Cons.IH[OF rel1, of accb]
        with av Inr False a b x ac None show ?thesis by simp
      next
        case (Some ex)
        with av Inr False a b x ac rel1 show ?thesis by simp
      qed
    qed
  qed
qed

lemma queue_blind_create_booking:
  assumes rel: "queue_rel code sent wa wb"
  shows "fst (create_booking stamp new_id now e u rt ta wa)
           = fst (create_booking stamp new_id now e u rt ta wb)
       \<and> queue_rel code sent (snd (create_booking stamp new_id now e u rt ta wa))
           (snd (create_booking stamp new_id now e u rt ta wb))"
proof -
  let ?bk = "\<lparr>bk_booking_id = new_id, bk_user_id = Some u, bk_event_id = Some e,
              bk_tickets = Some rt, bk_total_amount = Some ta,
              bk_status = Some ''reserved'',
              bk_reserved_until = Some (now + 300000000),
              bk_created_at = Some now, bk_updated_at = Some now,
              bk_ttl = Some (stamp (now + 300000000) + 3600)\<rparr>"
  let ?f = "\<lambda>w. w\<lparr>bookings_table := put_item (bookings_table w) new_id (as_item ?bk),
                    booking_cache := cache_set now (booking_cache w) new_id ?bk 300\<rparr>"
  have rel': "queue_rel code sent (?f wa) (?f wb)"
    using rel by (simp add: queue_rel_def)
  obtain ra wa1 where a: "send_to_queue BOOKING_QUEUE_URL (Process_reservation new_id u) (?f wa)
                            = (ra, wa1)"
    by (cases "send_to_queue BOOKING_QUEUE_URL (Process_reservation new_id u) (?f wa)")
  obtain rb wb1 where b: "send_to_queue BOOKING_QUEUE_URL (Process_reservation new_id u) (?f wb)
                            = (rb, wb1)"
    by (cases "send_to_queue BOOKING_QUEUE_URL (Process_reservation new_id u) (?f wb)")
  from queue_blindD[OF queue_blind_send_to_queue rel', of BOOKING_QUEUE_URL
      "Process_reservation new_id u"] a b
  have r: "ra = rb" and rel1: "queue_rel code sent wa1 wb1" by simp_all
  from a b r rel1 show ?thesis
    by (cases rb) (simp_all add: create_booking_eq)
qed

lemma queue_blind_reserve_under_lock [simp]:
  "queue_blind (reserve_under_lock stamp new_id now e u reqs)"
  unfolding queue_blind_def
proof (intro allI impI)
  fix code sent wa wb
  assume rel: "queue_rel code sent wa wb"
  obtain xa rta taa wa1 where a: "reserve_requests now e u reqs ([], 0) wa = (xa, (rta, taa), wa1)"
    by (cases "reserve_requests now e u reqs ([], 0) wa") auto
  obtain xb rtb tab wb1 where b: "reserve_requests now e u reqs ([], 0) wb = (xb, (rtb, tab), wb1)"
    by (cases "reserve_requests now e u reqs ([], 0) wb") auto
  from reserve_requests_queue_rel[OF rel, of now e u reqs "([], 0)"] a b
  have x: "xa = xb" and rt: "rta = rtb" and ta: "taa = tab" and rel1: "queue_rel code sent wa1 wb1"
    by simp_all
  show "fst (reserve_under_lock stamp new_id now e u reqs wa)
          = fst (reserve_under_lock stamp new_id now e u reqs wb)
        \<and> queue_rel code sent (snd (reserve_under_lock stamp new_id now e u reqs wa))
            (snd (reserve_under_lock stamp new_id now e u reqs wb))"
  proof (cases xb)
    case None
    obtain ca wa2 where ca: "create_booking stamp new_id now e u rtb tab wa1 = (ca, wa2)"
      by (cases "create_booking stamp new_id now e u rtb tab wa1")
    obtain cb wb2 where cb: "create_booking stamp new_id now e u rtb tab wb1 = (cb, wb2)"
      by (cases "create_booking stamp new_id now e u rtb tab wb1")
    from queue_blind_create_booking[OF rel1, of stamp new_id now e u rtb tab] ca cb
    have c: "ca = cb" and rel2: "queue_rel code sent wa2 wb2" by simp_all
    show ?thesis
    proof (cases cb)
      case (Inr resp)
      with a b x rt ta None ca cb c rel2 show ?thesis by (simp add: reserve_under_lock_def)
    next
      case (Inl ex)
      have "queue_blind (io_bind (rollback_reservations rtb u) (\<lambda>x. raise ex))"
        by (rule queue_blind_io_bind) simp_all
      from queue_blindD[OF this rel2] a b x rt ta None ca cb c Inl
      show ?thesis by (simp add: reserve_under_lock_def)
    qed
  next
    case (Some ex)
    have "queue_blind (io_bind (rollback_reservations rtb u) (\<lambda>x. raise ex))"
      by (rule queue_blind_io_bind) simp_all
    from queue_blindD[OF this rel1] a b x rt ta Some
    show ?thesis by (simp add: reserve_under_lock_def)
  qed
qed

lemma queue_blind_distributed_lock:
  "queue_blind block \<Longrightarrow> queue_blind (distributed_lock key block)"
  by (auto simp: queue_blind_def distributed_lock_def queue_rel_def)

lemma queue_blind_get_user_active_bookings_count [simp]:
  "queue_blind (get_user_active_bookings_count now u)"
  by (auto simp: queue_blind_def queue_rel_def get_user_active_bookings_count_def Let_def
      split: option.splits)

lemma queue_blind_get_event [simp]: "queue_blind (get_event now e)"
  by (auto simp: queue_blind_def queue_rel_def get_event_def get_item_def split: option.splits)

lemma queue_blind_reserve_tickets: "queue_blind (reserve_tickets v stamp new_id now body u)"
  unfolding queue_blind_def
proof (intro allI impI)
  fix code sent wa wb
  assume rel: "queue_rel code sent wa wb"
  show "fst (reserve_tickets v stamp new_id now body u wa) = fst (reserve_tickets v stamp new_id now body u wb)
        \<and> queue_rel code sent (snd (reserve_tickets v stamp new_id now body u wa))
            (snd (reserve_tickets v stamp new_id now body u wb))"
  proof (cases "v body")
    case (Some msg)
    with rel show ?thesis by (simp add: reserve_tickets_def)
  next
    case None
    obtain na wa1 where a: "get_user_active_bookings_count now u wa = (na, wa1)"
      by (cases "get_user_active_bookings_count now u wa")
    obtain nb wb1 where b: "get_user_active_bookings_count now u wb = (nb, wb1)"
      by (cases "get_user_active_bookings_count now u wb")
    from queue_blindD[OF queue_blind_get_user_active_bookings_count rel, of now u] a b
    have n: "na = nb" and rel1: "queue_rel code sent wa1 wb1" by simp_all
    show ?thesis
    proof (cases "nb + sum_list (map rq_quantity (rb_tickets body)) > MAX_TICKETS_PER_USER")
      case True
      with None a b n rel1 show ?thesis by (simp add: reserve_tickets_def)
    next
      case False
      obtain eva wa2 where ea: "get_event now (rb_event_id body) wa1 = (eva, wa2)"
        by (cases "get_event now (rb_event_id body) wa1")
      obtain evb wb2 where eb: "get_event now (rb_event_id body) wb1 = (evb, wb2)"
        by (cases "get_event now (rb_event_id body) wb1")
      from queue_blindD[OF queue_blind_get_event rel1, of now "rb_event_id body"] ea eb
      have ev: "eva = evb" and rel2: "queue_rel code sent wa2 wb2" by simp_all
      show ?thesis
      proof (cases evb)
        case None
        with \<open>v body = None\<close> a b n False ea eb ev rel2 show ?thesis
          by (simp add: reserve_tickets_def)
      next
        case (Some event)
        have "queue_blind (io_bind (getitem (ev_status event) ''status'')
                 (\<lambda>status.
                    if status \<noteq> ''active''
                    then raise (BookingError ''Event not available for booking'')
                    else distributed_lock (''booking_lock:'' @ rb_event_id body)
                           (reserve_under_lock stamp new_id now (rb_event_id body) u
                              (rb_tickets body))))"
          apply (rule queue_blind_io_bind)
           apply simp
          apply (simp split: if_splits)
          apply (intro impI)
          apply (rule queue_blind_distributed_lock)
          apply simp
          done
        from queue_blindD[OF this rel2] \<open>v body = None\<close> a b n False ea eb ev Some
        show ?thesis by (simp add: reserve_tickets_def Let_def)
      qed
    qed
  qed
qed

lemma client_error_swallowedI:
  "queue_blind f \<Longrightarrow> client_error_swallowed code f w"
proof -
  assume f: "queue_blind f"
  have "queue_rel code (sqs_sent w) (w\<lparr>sqs_fault := Some (Service_fault code)\<rparr>)
          (w\<lparr>sqs_fault := None\<rparr>)"
    by (simp add: queue_rel_def)
  from queue_blindD[OF f this] show ?thesis
    by (simp add: client_error_swallowed_def Let_def queue_rel_def)
qed

text \<open>
  C10, counterexample. The queue service is not reached and the client library raises
  \<open>EndpointConnectionError\<close>, which is not a \<open>ClientError\<close>: \<open>send_to_queue\<close> raises it.
  Alice's reservation of one vip ticket, which is answered with status 201 when the
  service accepts the message, is answered with status 500, although the ticket is
  reserved and the booking is stored. Her confirmation of the booking \<open>b0\<close>, which is
  answered with status 200 when the service accepts the message, is answered with status
  500, although the stored booking is \<open>processing\<close>.
\<close>

theorem send_to_queue_failure_counterexample:
  "fst (send_to_queue BOOKING_QUEUE_URL (Process_reservation ''b1'' ''alice'')
          (unreachable example_world))
     = Inl (BotoCoreError ''EndpointConnectionError'')
   \<and> rs_statusCode (fst (lambda_handler accept_all utc_timestamp ''b1'' 1000
        (api_request ''POST'' ''/booking/reserve''
           (reserve_body [\<lparr>rq_tier = ''vip'', rq_quantity = 1\<rparr>]) [] ''alice'')
        example_world)) = 201
   \<and> rs_statusCode (fst (lambda_handler accept_all utc_timestamp ''b1'' 1000
        (api_request ''POST'' ''/booking/reserve''
           (reserve_body [\<lparr>rq_tier = ''vip'', rq_quantity = 1\<rparr>]) [] ''alice'')
        (unreachable example_world))) = 500
   \<and> map_option tk_reserved_by
        (ticket_of (snd (lambda_handler accept_all utc_timestamp ''b1'' 1000
           (api_request ''POST'' ''/booking/reserve''
              (reserve_body [\<lparr>rq_tier = ''vip'', rq_quantity = 1\<rparr>]) [] ''alice'')
           (unreachable example_world))) (''e1'', ''v1'')) = Some (Some ''alice'')
   \<and> map_option bk_status
        (booking_of (snd (lambda_handler accept_all utc_timestamp ''b1'' 1000
           (api_request ''POST'' ''/booking/reserve''
              (reserve_body [\<lparr>rq_tier = ''vip'', rq_quantity = 1\<rparr>]) [] ''alice'')
           (unreachable example_world))) ''b1'') = Some (Some ''reserved'')
   \<and> rs_statusCode (fst (lambda_handler accept_all utc_timestamp ''b2'' 2000
        (api_request ''POST'' ''/booking/confirm'' (confirm_body ''b0'') [] ''alice'')
        empty_booked_world)) = 200
   \<and> rs_statusCode (fst (lambda_handler accept_all utc_timestamp ''b2'' 2000
        (api_request ''POST'' ''/booking/confirm'' (confirm_body ''b0'') [] ''alice'')
        (unreachable empty_booked_world))) = 500
   \<and> map_option bk_status
        (booking_of (snd (lambda_handler accept_all utc_timestamp ''b2'' 2000
           (api_request ''POST'' ''/booking/confirm'' (confirm_body ''b0'') [] ''alice'')
           (unreachable empty_booked_world))) ''b0'') = Some (Some ''processing'')"
  by code_simp

text \<open>
  C10, amended. When the queue service answers with an error, which the client library
  raises as \<open>ClientError\<close>, \<open>send_to_queue\<close> of a message that is encoded does not raise
  and leaves the state as it is. For every request to \<open>reserve_tickets\<close> and to
  \<open>confirm_booking\<close>, the run in which the service answers with an error returns what the
  run in which the service accepts the message returns, a success response included, with
  the same tables and caches afterwards, and sends no message.
\<close>

theorem send_to_queue_client_error_swallowed:
  "(json_dumps msg = Inr msg \<longrightarrow>
      send_to_queue queue_url msg (w\<lparr>sqs_fault := Some (Service_fault code)\<rparr>)
        = (Inr (), w\<lparr>sqs_fault := Some (Service_fault code)\<rparr>))
   \<and> client_error_swallowed code
       (reserve_tickets validate_booking_request timestamp new_id now body user_id) w
   \<and> client_error_swallowed code (confirm_booking now body user_id) w"
  using client_error_swallowedI[OF queue_blind_reserve_tickets]
    client_error_swallowedI[OF queue_blind_confirm_booking]
  by (simp add: send_to_queue_def sqs_send_message_def)

theorem send_to_queue_client_error_swallowed_witness:
  "json_dumps (Process_reservation ''b1'' ''alice'') = Inr (Process_reservation ''b1'' ''alice'')
   \<and> send_to_queue BOOKING_QUEUE_URL (Process_reservation ''b1'' ''alice'')
         (example_world\<lparr>sqs_fault := Some (Service_fault ''ServiceUnavailable'')\<rparr>)
       = (Inr (), example_world\<lparr>sqs_fault := Some (Service_fault ''ServiceUnavailable'')\<rparr>)
   \<and> rs_statusCode (fst (lambda_handler accept_all utc_timestamp ''b1'' 1000
      (api_request ''POST'' ''/booking/reserve''
         (reserve_body [\<lparr>rq_tier = ''vip'', rq_quantity = 1\<rparr>]) [] ''alice'')
      (example_world\<lparr>sqs_fault := Some (Service_fault ''ServiceUnavailable'')\<rparr>))) = 201
   \<and> fst (reserve_tickets accept_all utc_timestamp ''b1'' 1000
            (reserve_body [\<lparr>rq_tier = ''vip'', rq_quantity = 1\<rparr>]) ''alice''
            (example_world\<lparr>sqs_fault := Some (Service_fault ''ServiceUnavailable'')\<rparr>))
       = fst (reserve_tickets accept_all utc_timestamp ''b1'' 1000
            (reserve_body [\<lparr>rq_tier = ''vip'', rq_quantity = 1\<rparr>]) ''alice''
            (example_world\<lparr>sqs_fault := None\<rparr>))
   \<and> bookings_table (snd (reserve_tickets accept_all utc_timestamp ''b1'' 1000
            (reserve_body [\<lparr>rq_tier = ''vip'', rq_quantity = 1\<rparr>]) ''alice''
            (example_world\<lparr>sqs_fault := Some (Service_fault ''ServiceUnavailable'')\<rparr>)))
       = bookings_table (snd (reserve_tickets accept_all utc_timestamp ''b1'' 1000
            (reserve_body [\<lparr>rq_tier = ''vip'', rq_quantity = 1\<rparr>]) ''alice''
            (example_world\<lparr>sqs_fault := None\<rparr>)))
   \<and> sqs_sent (snd (reserve_tickets accept_all utc_timestamp ''b1'' 1000
            (reserve_body [\<lparr>rq_tier = ''vip'', rq_quantity = 1\<rparr>]) ''alice''
            (example_world\<lparr>sqs_fault := Some (Service_fault ''ServiceUnavailable'')\<rparr>))) = []
   \<and> sqs_sent (snd (reserve_tickets accept_all utc_timestamp ''b1'' 1000
            (reserve_body [\<lparr>rq_tier = ''vip'', rq_quantity = 1\<rparr>]) ''alice''
            (example_world\<lparr>sqs_fault := None\<rparr>)))
       = [(BOOKING_QUEUE_URL, Process_reservation ''b1'' ''alice'')]
   \<and> fst (confirm_booking 2000 (confirm_body ''b0'') ''alice''
            (empty_booked_world\<lparr>sqs_fault := Some (Service_fault ''ServiceUnavailable'')\<rparr>))
       = Inr (create_response 200
                (Processing_body ''b0'' ''processing'' ''Payment processing initiated''))
   \<and> fst (confirm_booking 2000 (confirm_body ''b0'') ''alice''
            (empty_booked_world\<lparr>sqs_fault := Some (Service_fault ''ServiceUnavailable'')\<rparr>))
       = fst (confirm_booking 2000 (confirm_body ''b0'') ''alice''
            (empty_booked_world\<lparr>sqs_fault := None\<rparr>))
   \<and> map_option bk_status
        (booking_of (snd (confirm_booking 2000 (confirm_body ''b0'') ''alice''
           (empty_booked_world\<lparr>sqs_fault := Some (Service_fault ''ServiceUnavailable'')\<rparr>)))
           ''b0'')
       = Some (Some ''processing'')
   \<and> sqs_sent (snd (confirm_booking 2000 (confirm_body ''b0'') ''alice''
           (empty_booked_world\<lparr>sqs_fault := Some (Service_fault ''ServiceUnavailable'')\<rparr>)))
       = sqs_sent empty_booked_world"
proof -
  note inst = send_to_queue_client_error_swallowed[where w = example_world
      and validate_booking_request = accept_all and timestamp = utc_timestamp
      and new_id = "''b1''" and now = 1000
      and body = "reserve_body [\<lparr>rq_tier = ''vip'', rq_quantity = 1\<rparr>]"
      and user_id = "''alice''" and code = "''ServiceUnavailable''"
      and msg = "Process_reservation ''b1'' ''alice''" and queue_url = BOOKING_QUEUE_URL]
  note inst2 = send_to_queue_client_error_swallowed[where w = empty_booked_world
      and now = 2000 and body = "confirm_body ''b0''" and user_id = "''alice''"
      and code = "''ServiceUnavailable''"]
  have encoded: "json_dumps (Process_reservation ''b1'' ''alice'')
                   = Inr (Process_reservation ''b1'' ''alice'')"
    by (simp add: json_dumps_def)
  from inst encoded have sent: "send_to_queue BOOKING_QUEUE_URL
         (Process_reservation ''b1'' ''alice'')
         (example_world\<lparr>sqs_fault := Some (Service_fault ''ServiceUnavailable'')\<rparr>)
       = (Inr (), example_world\<lparr>sqs_fault := Some (Service_fault ''ServiceUnavailable'')\<rparr>)"
    by blast
  from inst have same: "fst (reserve_tickets accept_all utc_timestamp ''b1'' 1000
            (reserve_body [\<lparr>rq_tier = ''vip'', rq_quantity = 1\<rparr>]) ''alice''
            (example_world\<lparr>sqs_fault := Some (Service_fault ''ServiceUnavailable'')\<rparr>))
       = fst (reserve_tickets accept_all utc_timestamp ''b1'' 1000
            (reserve_body [\<lparr>rq_tier = ''vip'', rq_quantity = 1\<rparr>]) ''alice''
            (example_world\<lparr>sqs_fault := None\<rparr>))"
    and stored: "bookings_table (snd (reserve_tickets accept_all utc_timestamp ''b1'' 1000
            (reserve_body [\<lparr>rq_tier = ''vip'', rq_quantity = 1\<rparr>]) ''alice''
            (example_world\<lparr>sqs_fault := Some (Service_fault ''ServiceUnavailable'')\<rparr>)))
       = bookings_table (snd (reserve_tickets accept_all utc_timestamp ''b1'' 1000
            (reserve_body [\<lparr>rq_tier = ''vip'', rq_quantity = 1\<rparr>]) ''alice''
            (example_world\<lparr>sqs_fault := None\<rparr>)))"
    by (simp_all add: client_error_swallowed_def Let_def)
  from inst2 have same2: "fst (confirm_booking 2000 (confirm_body ''b0'') ''alice''
            (empty_booked_world\<lparr>sqs_fault := Some (Service_fault ''ServiceUnavailable'')\<rparr>))
       = fst (confirm_booking 2000 (confirm_body ''b0'') ''alice''
            (empty_booked_world\<lparr>sqs_fault := None\<rparr>))"
    and unsent: "sqs_sent (snd (confirm_booking 2000 (confirm_body ''b0'') ''alice''
           (empty_booked_world\<lparr>sqs_fault := Some (Service_fault ''ServiceUnavailable'')\<rparr>)))
       = sqs_sent empty_booked_world"
    by (simp_all add: client_error_swallowed_def Let_def)
  have rest: "rs_statusCode (fst (lambda_handler accept_all utc_timestamp ''b1'' 1000
      (api_request ''POST'' ''/booking/reserve''
         (reserve_body [\<lparr>rq_tier = ''vip'', rq_quantity = 1\<rparr>]) [] ''alice'')
      (example_world\<lparr>sqs_fault := Some (Service_fault ''ServiceUnavailable'')\<rparr>))) = 201
   \<and> sqs_sent (snd (reserve_tickets accept_all utc_timestamp ''b1'' 1000
            (reserve_body [\<lparr>rq_tier = ''vip'', rq_quantity = 1\<rparr>]) ''alice''
            (example_world\<lparr>sqs_fault := Some (Service_fault ''ServiceUnavailable'')\<rparr>))) = []
   \<and> sqs_sent (snd (reserve_tickets accept_all utc_timestamp ''b1'' 1000
            (reserve_body [\<lparr>rq_tier = ''vip'', rq_quantity = 1\<rparr>]) ''alice''
            (example_world\<lparr>sqs_fault := None\<rparr>)))
       = [(BOOKING_QUEUE_URL, Process_reservation ''b1'' ''alice'')]
   \<and> fst (confirm_booking 2000 (confirm_body ''b0'') ''alice''
            (empty_booked_world\<lparr>sqs_fault := Some (Service_fault ''ServiceUnavailable'')\<rparr>))
       = Inr (create_response 200
                (Processing_body ''b0'' ''processing'' ''Payment processing initiated''))
   \<and> map_option bk_status
        (booking_of (snd (confirm_booking 2000 (confirm_body ''b0'') ''alice''
           (empty_booked_world\<lparr>sqs_fault := Some (Service_fault ''ServiceUnavailable'')\<rparr>)))
           ''b0'')
       = Some (Some ''processing'')"
    by code_simp
  from encoded sent same stored same2 unsent rest show ?thesis by blast
qed

text \<open>
  The body of the payment message is encoded before the service is called. A booking
  read from the store holds its \<open>total_amount\<close> as a \<open>Decimal\<close>: with the queue service
  accepting messages, alice's confirmation of \<open>b1\<close> in \<open>uncached_world\<close> raises
  \<open>TypeError\<close> in \<open>send_to_queue\<close> after the status was written. It is answered with
  status 500, the stored booking is \<open>processing\<close> and no payment message was sent.
\<close>

lemma confirm_booking_TypeError:
  "cache_get 2000 (booking_cache uncached_world) ''b1'' = None
   \<and> sqs_fault uncached_world = None
   \<and> fst (confirm_booking 2000 (confirm_body ''b1'') ''alice'' uncached_world)
       = Inl (TypeError ''Object of type Decimal is not JSON serializable'')
   \<and> rs_statusCode (fst (lambda_handler accept_all utc_timestamp ''b2'' 2000
        (api_request ''POST'' ''/booking/confirm'' (confirm_body ''b1'') [] ''alice'')
        uncached_world)) = 500
   \<and> map_option bk_status
        (booking_of (snd (confirm_booking 2000 (confirm_body ''b1'') ''alice'' uncached_world))
           ''b1'') = Some (Some ''processing'')
   \<and> sqs_sent (snd (confirm_booking 2000 (confirm_body ''b1'') ''alice'' uncached_world))
       = sqs_sent uncached_world"
  by code_simp

end
